theory Spec2Isabelle
  imports Main
begin

section \<open>Python values\<close>

text \<open>
  A Python \<open>str\<close> is a sequence of Unicode code points; it is modelled as a list of
  natural numbers, so that code points above 127 (and above 255) are ordinary elements.
  \<open>py\<close> turns a literal of the source into such a list.
\<close>

type_synonym pystr = "nat list"

definition py :: "string \<Rightarrow> pystr" where
  "py x = map of_char x"

text \<open>
  The values a cell of the data frame can hold.  \<open>'f\<close> is the type of Python floats,
  which are not modelled: whatever is needed of them is a parameter (\<open>pylib\<close> below).
  The three missing-value markers are kept apart: \<open>None\<close>, the float \<open>np.NaN\<close> and
  pandas' \<open>pd.NA\<close> (what \<open>astype("Int64")\<close> and \<open>astype("Float64")\<close> make of NaN).
\<close>

datatype 'f cell = CStr pystr | CInt int | CFloat 'f | CNone | CNaN | CNA

datatype error =
    SysExit int
  | NameError string
  | KeyError pystr
  | IndexError
  | ValueError
  | TypeError
  | TransportError

text \<open>
  What the source takes from Python's builtins and from the libraries it imports.
  \<open>int(s)\<close> and \<open>float(s)\<close> on a \<open>str\<close> either return a number or raise
  \<open>ValueError\<close> (the result \<open>None\<close> here), and nothing else.
  \<open>unidecode\<close> leaves every code point below 128 alone and replaces every other one by
  the entry of its transliteration table, the parameter \<open>translit\<close>.
\<close>

record 'f pylib =
  py_int :: "pystr \<Rightarrow> int option"
  py_float :: "pystr \<Rightarrow> 'f option"
  float_isnan :: "'f \<Rightarrow> bool"
  float_eq_int :: "'f \<Rightarrow> int \<Rightarrow> bool"
  float_str :: "'f \<Rightarrow> pystr"
  translit :: "nat \<Rightarrow> pystr"

definition unidecode :: "'f pylib \<Rightarrow> pystr \<Rightarrow> pystr" where
  "unidecode lib s = concat (map (\<lambda>c. if c < 128 then [c] else translit lib c) s)"

text \<open>\<open>str(n)\<close> for an integer: its decimal digits, with a minus sign when negative.\<close>

fun digits :: "nat \<Rightarrow> nat \<Rightarrow> pystr" where
  "digits 0 n = []"
| "digits (Suc k) n = (if n < 10 then [48 + n] else digits k (n div 10) @ [48 + n mod 10])"

definition str_of_nat :: "nat \<Rightarrow> pystr" where
  "str_of_nat n = digits (Suc n) n"

definition str_of_int :: "int \<Rightarrow> pystr" where
  "str_of_int i = (if i < 0 then 45 # str_of_nat (nat (- i)) else str_of_nat (nat i))"

text \<open>Python's \<open>x in s\<close> on strings: \<open>x\<close> occurs in \<open>s\<close> as a contiguous run.\<close>

fun starts_with :: "'a list \<Rightarrow> 'a list \<Rightarrow> bool" where
  "starts_with [] ys = True"
| "starts_with (x # xs) [] = False"
| "starts_with (x # xs) (y # ys) = (x = y \<and> starts_with xs ys)"

fun contains :: "'a list \<Rightarrow> 'a list \<Rightarrow> bool" where
  "contains xs [] = (xs = [])"
| "contains xs (y # ys) = (starts_with xs (y # ys) \<or> contains xs ys)"

text \<open>Running a fallible function over a list stops at the first exception.\<close>

fun traverse :: "('a \<Rightarrow> error + 'b) \<Rightarrow> 'a list \<Rightarrow> error + 'b list" where
  "traverse f [] = Inr []"
| "traverse f (x # xs) =
     (case f x of
        Inl e \<Rightarrow> Inl e
      | Inr y \<Rightarrow> (case traverse f xs of Inl e \<Rightarrow> Inl e | Inr ys \<Rightarrow> Inr (y # ys)))"


section \<open>The query engine (query\_engine\_libre\_clinica\_github.py)\<close>

subsection \<open>The JSON answer of the SPARQL endpoint\<close>

text \<open>
  One binding is the JSON object \<open>{"value": .., "type": .., "datatype": ..}\<close>; any of
  the keys may be absent.  A row is a JSON object from column names to bindings.
\<close>

record binding =
  b_value :: "pystr option"
  b_type :: "pystr option"
  b_datatype :: "pystr option"

type_synonym sparql_row = "(pystr \<times> binding) list"

record sparql_json =
  head_vars :: "pystr list"
  bindings :: "sparql_row list"

text \<open>
  The HTTP answer: its status code, and what \<open>result.json()\<close> gives, which raises
  when the body is not JSON.
\<close>

record sparql_response =
  sr_status_code :: int
  sr_json :: "error + sparql_json"

text \<open>\<open>row.get(col, {}).get(key)\<close>\<close>

definition row_get :: "sparql_row \<Rightarrow> pystr \<Rightarrow> (binding \<Rightarrow> pystr option) \<Rightarrow> pystr option" where
  "row_get row col key = (case map_of row col of None \<Rightarrow> None | Some b \<Rightarrow> key b)"

subsection \<open>Data frames\<close>

datatype dtype = Object | Category | Int64 | Float64

text \<open>
  A data frame: the number of its rows and its columns in order, each with its name, its
  dtype and its cells, one for every row.  Column names are taken to be distinct, as the
  variables of a SPARQL result head are.
\<close>

record 'f dataframe =
  df_len :: nat
  df_data :: "(pystr \<times> dtype \<times> 'f cell list) list"

definition df_columns :: "'f dataframe \<Rightarrow> pystr list" where
  "df_columns df = map fst (df_data df)"

definition raw_cell :: "pystr option \<Rightarrow> 'f cell" where
  "raw_cell v = (case v of None \<Rightarrow> CNone | Some s \<Rightarrow> CStr s)"

text \<open>
  \<open>pd.DataFrame(out, columns=columns)\<close>: every column has dtype object.  The rows of
  \<open>out\<close> are as long as \<open>columns\<close> (lines 85--88 build them so).
\<close>

definition DataFrame :: "pystr option list list \<Rightarrow> pystr list \<Rightarrow> 'f dataframe" where
  "DataFrame out columns =
     \<lparr>df_len = length out,
      df_data = map (\<lambda>(j, col). (col, Object, map (\<lambda>item. raw_cell (item ! j)) out))
                    (zip [0..<length columns] columns)\<rparr>"

text \<open>\<open>df[col]\<close> read (a missing column raises \<open>KeyError\<close>), and \<open>df[col] = ...\<close>.\<close>

definition get_column :: "'f dataframe \<Rightarrow> pystr \<Rightarrow> error + 'f cell list" where
  "get_column df col =
     (case map_of (df_data df) col of None \<Rightarrow> Inl (KeyError col) | Some (d, vals) \<Rightarrow> Inr vals)"

definition set_column :: "'f dataframe \<Rightarrow> pystr \<Rightarrow> dtype \<Rightarrow> 'f cell list \<Rightarrow> 'f dataframe" where
  "set_column df col dt vals =
     df\<lparr>df_data := map (\<lambda>(c, d, old). if c = col then (c, dt, vals) else (c, d, old)) (df_data df)\<rparr>"

subsection \<open>convert (lines 29--48)\<close>

text \<open>
  \<open>cast_to\<close> is the function handed in (\<open>int\<close> or \<open>float\<close>); only its
  \<open>ValueError\<close> is caught, any other exception leaves \<open>convert\<close>.
\<close>

definition convert :: "pystr option \<Rightarrow> (pystr \<Rightarrow> error + 'f cell) \<Rightarrow> error + 'f cell" where
  "convert column cast_to =
     (case column of
        Some c \<Rightarrow>
          (case cast_to c of
             Inl ValueError \<Rightarrow> Inr CNaN
           | Inl e \<Rightarrow> Inl e
           | Inr tmp \<Rightarrow> Inr tmp)
      | None \<Rightarrow> Inr CNaN)"

text \<open>The builtins \<open>int\<close> and \<open>float\<close> as \<open>cast_to\<close>.\<close>

definition cast_int :: "'f pylib \<Rightarrow> pystr \<Rightarrow> error + 'f cell" where
  "cast_int lib s = (case py_int lib s of None \<Rightarrow> Inl ValueError | Some n \<Rightarrow> Inr (CInt n))"

definition cast_float :: "'f pylib \<Rightarrow> pystr \<Rightarrow> error + 'f cell" where
  "cast_float lib s = (case py_float lib s of None \<Rightarrow> Inl ValueError | Some x \<Rightarrow> Inr (CFloat x))"

subsection \<open>get\_sparql\_dataframe (lines 79--115)\<close>

text \<open>
  \<open>astype\<close>: to category, \<open>None\<close> becomes NaN; to the nullable dtypes \<open>Int64\<close> and
  \<open>Float64\<close>, NaN becomes \<open>pd.NA\<close>.  The limits of the 64-bit representations behind
  these dtypes are not modelled: numbers are kept exact.
\<close>

definition astype_category :: "'f cell \<Rightarrow> 'f cell" where
  "astype_category v = (case v of CNone \<Rightarrow> CNaN | _ \<Rightarrow> v)"

definition astype_Int64 :: "'f cell \<Rightarrow> 'f cell" where
  "astype_Int64 v = (case v of CNaN \<Rightarrow> CNA | _ \<Rightarrow> v)"

definition astype_Float64 :: "'f pylib \<Rightarrow> 'f cell \<Rightarrow> 'f cell" where
  "astype_Float64 lib v =
     (case v of CNaN \<Rightarrow> CNA | CFloat x \<Rightarrow> (if float_isnan lib x then CNA else v) | _ \<Rightarrow> v)"

definition literal_variable_types :: "pystr set" where
  "literal_variable_types = {py ''literal'', py ''typed-literal''}"

definition integer_data_types :: "pystr set" where
  "integer_data_types =
     {py ''http://www.w3.org/2001/XMLSchema#int'', py ''http://www.w3.org/2001/XMLSchema#integer''}"

definition xsd_double :: pystr where
  "xsd_double = py ''http://www.w3.org/2001/XMLSchema#double''"

definition xsd_string :: pystr where
  "xsd_string = py ''http://www.w3.org/2001/XMLSchema#string''"

text \<open>
  The value of an object column as \<open>convert\<close> receives it: the string or \<open>None\<close> that
  was put into the frame.
\<close>

definition cell_raw :: "'f cell \<Rightarrow> pystr option" where
  "cell_raw v = (case v of CStr s \<Rightarrow> Some s | _ \<Rightarrow> None)"

text \<open>
  The body of the loop \<open>for col in columns\<close> (lines 103--113).  The tests on
  \<open>var_type\<close> exclude one another, and so do those on \<open>data_type\<close>.
\<close>

definition type_column :: "'f pylib \<Rightarrow> sparql_row \<Rightarrow> 'f dataframe \<Rightarrow> pystr \<Rightarrow> error + 'f dataframe" where
  "type_column lib first_row df col =
     (let var_type = row_get first_row col b_type
      in if var_type = Some (py ''uri'') then
           (case get_column df col of
              Inl e \<Rightarrow> Inl e
            | Inr vals \<Rightarrow> Inr (set_column df col Category (map astype_category vals)))
         else if var_type \<in> Some ` literal_variable_types then
           (let data_type = row_get first_row col b_datatype
            in if data_type \<in> Some ` integer_data_types then
                 (case get_column df col of
                    Inl e \<Rightarrow> Inl e
                  | Inr vals \<Rightarrow>
                      (case traverse (\<lambda>x. convert (cell_raw x) (cast_int lib)) vals of
                         Inl e \<Rightarrow> Inl e
                       | Inr vals' \<Rightarrow> Inr (set_column df col Int64 (map astype_Int64 vals'))))
               else if data_type = Some xsd_double then
                 (case get_column df col of
                    Inl e \<Rightarrow> Inl e
                  | Inr vals \<Rightarrow>
                      (case traverse (\<lambda>x. convert (cell_raw x) (cast_float lib)) vals of
                         Inl e \<Rightarrow> Inl e
                       | Inr vals' \<Rightarrow> Inr (set_column df col Float64 (map (astype_Float64 lib) vals'))))
               else if data_type = Some xsd_string then
                 (case get_column df col of
                    Inl e \<Rightarrow> Inl e
                  | Inr vals \<Rightarrow> Inr (set_column df col Category (map astype_category vals)))
               else Inr df)
         else Inr df)"

fun type_columns :: "'f pylib \<Rightarrow> sparql_row \<Rightarrow> 'f dataframe \<Rightarrow> pystr list \<Rightarrow> error + 'f dataframe" where
  "type_columns lib first_row df [] = Inr df"
| "type_columns lib first_row df (col # cols) =
     (case type_column lib first_row df col of
        Inl e \<Rightarrow> Inl e
      | Inr df' \<Rightarrow> type_columns lib first_row df' cols)"

text \<open>
  From the parsed JSON to the typed frame (lines 81--115); the request that precedes it
  is part of \<open>get_sparql_dataframe\<close> below.
\<close>

definition materialize :: "'f pylib \<Rightarrow> sparql_json \<Rightarrow> error + 'f dataframe" where
  "materialize lib processed_results =
     (let columns = head_vars processed_results;
          out = map (\<lambda>row. map (\<lambda>col. row_get row col b_value) columns) (bindings processed_results);
          df_sparql = DataFrame out columns
      in case bindings processed_results of
           [] \<Rightarrow> Inr df_sparql
         | first_row # _ \<Rightarrow> type_columns lib first_row df_sparql columns)"

section \<open>Effects: remote calls and the log\<close>

text \<open>The dictionaries handed to the SOAP client, and what it returns.\<close>

record 'f subject =
  sub_label :: "'f cell"
  sub_enrollmentDate :: pystr
  sub_gender :: "'f cell option"
  sub_studyRef :: pystr

record 'f event =
  ev_label :: "'f cell"
  ev_studyRef :: pystr
  ev_eventDefinitionOID :: pystr
  ev_startDate :: pystr
  ev_location :: pystr

record soap_ret =
  ret_result :: pystr
  ret_error :: pystr
  ret_raw_elements :: "pystr list"

text \<open>
  The import request is a fixed XML template with holes; it is represented by the values
  put into the holes, in the order of the template.  Each item is the pair of the
  \<open>ItemOID\<close> and the \<open>Value\<close> attribute of one \<open>ItemData\<close> element.
\<close>

record odm =
  odm_user :: pystr
  odm_password :: pystr
  odm_study_oid :: pystr
  odm_subject_key :: pystr
  odm_event_oid :: pystr
  odm_form_oid :: pystr
  odm_item_group_oid :: pystr
  odm_items :: "(pystr \<times> pystr) list"

text \<open>
  The answer to the import request: status code, body, and what BeautifulSoup finds in
  the body: the texts of its \<open>result\<close> elements and of its \<open>error\<close> elements, in
  document order.
\<close>

record http_ret =
  http_status_code :: int
  http_text :: pystr
  http_results :: "pystr list"
  http_errors :: "pystr list"

datatype 'f call =
    SparqlPost "pystr option" "(pystr option \<times> pystr option) option" pystr
  | IsStudySubject pystr "pystr \<times> pystr" "'f subject"
  | Create pystr "pystr \<times> pystr" "'f subject"
  | Schedule pystr "pystr \<times> pystr" "'f event"
  | PostData pystr odm

datatype level = Info | Warning | Error | Critical

text \<open>One constructor for each call of the logger, with the values it interpolates.\<close>

datatype 'f log_msg =
    L_status_code int
  | L_trying "'f cell"
  | L_found pystr
  | L_creating
  | L_rerunning
  | L_could_not_create pystr
  | L_not_available
  | L_gate_disabled
  | L_retrieving pystr
  | L_no_data
  | L_received nat
  | L_columns "pystr list"
  | L_iteration nat
  | L_adding "'f cell"
  | L_got_oid pystr
  | L_schedule_code pystr
  | L_schedule_fail pystr
  | L_starting_upload "'f cell"
  | L_upload_code int
  | L_succeeded
  | L_result pystr
  | L_upload_fail pystr
  | L_failed_subject "'f cell \<times> pystr"
  | L_no_result_or_error pystr
  | L_failed_list "('f cell \<times> pystr) list"
  | L_total nat
  | L_num_failed nat

datatype 'f effect = Log level "'f log_msg" | Call "'f call"

text \<open>
  Everything outside the process: the environment variables, the clock, and the three
  remote services.  Each service answers (or raises) as a function of the request and of
  everything that happened before it, so any deterministic remote system is a \<open>world\<close>.
\<close>

record 'f world =
  getenv :: "string \<Rightarrow> pystr option"
  today :: "'f effect list \<Rightarrow> pystr"
  sparql :: "'f effect list \<Rightarrow> 'f call \<Rightarrow> error + sparql_response"
  soap :: "'f effect list \<Rightarrow> 'f call \<Rightarrow> error + soap_ret"
  post_data :: "'f effect list \<Rightarrow> 'f call \<Rightarrow> error + http_ret"

text \<open>get\_sparql\_dataframe, lines 63--80: the request, then \<open>materialize\<close>.\<close>

definition get_sparql_dataframe ::
  "'f pylib \<Rightarrow> 'f world \<Rightarrow> pystr \<Rightarrow> bool \<Rightarrow> 'f effect list \<Rightarrow> (error + 'f dataframe) \<times> 'f effect list" where
  "get_sparql_dataframe lib w qry auth_required tr =
     (let query_endpoint = getenv w ''SPARQL_QUERY_ENDPOINT'';
          auth = (if auth_required then Some (getenv w ''USER'', getenv w ''USER_PWD'') else None);
          c = SparqlPost query_endpoint auth qry;
          tr1 = tr @ [Call c]
      in case sparql w tr c of
           Inl e \<Rightarrow> (Inl e, tr1)
         | Inr res \<Rightarrow>
             (let tr2 = tr1 @ [Log Info (L_status_code (sr_status_code res))]
              in case sr_json res of
                   Inl e \<Rightarrow> (Inl e, tr2)
                 | Inr processed_results \<Rightarrow> (materialize lib processed_results, tr2)))"


section \<open>The identity resolver (libre\_clinica\_request\_github.py, lines 21--117)\<close>

text \<open>
  The truth value of \<open>v == n\<close> for an integer \<open>n\<close>, as the conditional expression of
  line 92 needs it.  A string, \<open>None\<close> and NaN differ from every integer; comparing
  \<open>pd.NA\<close> gives \<open>pd.NA\<close>, which has no truth value: taking it raises \<open>TypeError\<close>.
\<close>

definition eq_int_truth :: "'f pylib \<Rightarrow> 'f cell \<Rightarrow> int \<Rightarrow> error + bool" where
  "eq_int_truth lib v n =
     (case v of
        CStr s \<Rightarrow> Inr False
      | CInt k \<Rightarrow> Inr (k = n)
      | CFloat x \<Rightarrow> Inr (float_eq_int lib x n)
      | CNone \<Rightarrow> Inr False
      | CNaN \<Rightarrow> Inr False
      | CNA \<Rightarrow> Inl TypeError)"

text \<open>\<open>"m" if ss_gender == 1 else "f" if ss_gender == 2 else ss_gender\<close>\<close>

definition gender_code :: "'f pylib \<Rightarrow> 'f cell \<Rightarrow> error + 'f cell" where
  "gender_code lib ss_gender =
     (case eq_int_truth lib ss_gender 1 of
        Inl e \<Rightarrow> Inl e
      | Inr True \<Rightarrow> Inr (CStr (py ''m''))
      | Inr False \<Rightarrow>
          (case eq_int_truth lib ss_gender 2 of
             Inl e \<Rightarrow> Inl e
           | Inr True \<Rightarrow> Inr (CStr (py ''f''))
           | Inr False \<Rightarrow> Inr ss_gender))"

function get_lc_ss_oid ::
  "'f pylib \<Rightarrow> 'f world \<Rightarrow> pystr \<Rightarrow> pystr \<Rightarrow> pystr \<Rightarrow> pystr \<Rightarrow> 'f cell \<Rightarrow> 'f cell \<Rightarrow> bool
     \<Rightarrow> 'f effect list \<Rightarrow> (error + pystr) \<times> 'f effect list" where
  "get_lc_ss_oid lib w lc_endpoint lc_user lc_password study_identifier ss_label ss_gender rerun tr =
     (let tr1 = tr @ [Log Info (L_trying ss_label)];
          wsdl = lc_endpoint @ py ''study/v1/studySubjectWsdl.wsdl'';
          header = (lc_user, lc_password);
          c = IsStudySubject wsdl header
                \<lparr>sub_label = ss_label, sub_enrollmentDate = py ''1900-01-01'',
                 sub_gender = None, sub_studyRef = study_identifier\<rparr>;
          tr2 = tr1 @ [Call c]
      in case soap w tr1 c of
           Inl e \<Rightarrow> (Inl e, tr2)
         | Inr ret \<Rightarrow>
             if ret_result ret = py ''Success'' then
               (case rev (ret_raw_elements ret) of
                  [] \<Rightarrow> (Inl IndexError, tr2)
                | oid # _ \<Rightarrow> (Inr oid, tr2 @ [Log Info (L_found oid)]))
             else if \<not> rerun then
               (let tr3 = tr2 @ [Log Info L_creating];
                    enrollment = today w tr3
                in case gender_code lib ss_gender of
                     Inl e \<Rightarrow> (Inl e, tr3)
                   | Inr g \<Rightarrow>
                       (let c' = Create wsdl header
                                   \<lparr>sub_label = ss_label, sub_enrollmentDate = enrollment,
                                    sub_gender = Some g, sub_studyRef = study_identifier\<rparr>;
                            tr4 = tr3 @ [Call c']
                        in case soap w tr3 c' of
                             Inl e \<Rightarrow> (Inl e, tr4)
                           | Inr ret' \<Rightarrow>
                               if ret_result ret' = py ''Success'' then
                                 get_lc_ss_oid lib w lc_endpoint lc_user lc_password study_identifier
                                   ss_label ss_gender True (tr4 @ [Log Info L_rerunning])
                               else
                                 (Inr [], tr4 @ [Log Warning (L_could_not_create (ret_error ret'))])))
             else (Inr [], tr2 @ [Log Info L_not_available]))"
  by pat_completeness auto
termination
  by (relation "measure (\<lambda>(lib, w, e, u, p, s, l, g, rerun, tr). if rerun then 0 else 1)") auto

declare get_lc_ss_oid.simps [simp del]

section \<open>The upload (libre\_clinica\_request\_github.py, lines 120--335)\<close>

text \<open>\<open>LCConfig\<close>; \<open>alternative_item_oids\<close> is the dictionary it holds after \<open>__init__\<close>.\<close>

record lcconfig =
  cfg_sparql_endpoint :: pystr
  cfg_query :: pystr
  cfg_lc_endpoint :: pystr
  cfg_lc_user :: pystr
  cfg_lc_password :: pystr
  cfg_study_oid :: pystr
  cfg_study_identifier :: pystr
  cfg_event_oid :: pystr
  cfg_form_oid :: pystr
  cfg_item_group_oid :: pystr
  cfg_identifier_colname :: pystr
  cfg_gender_colname :: pystr
  cfg_item_prefix :: pystr
  cfg_alternative_item_oids :: "(pystr \<times> pystr) list"
  cfg_perform_query :: bool

text \<open>
  The module's global names that \<open>upload_to_lc\<close> reads.  They are bound only by the
  script entry point (lines 353--361); reading an unbound one raises \<open>NameError\<close>.
\<close>

record globals =
  g_study_oid :: "pystr option"
  g_study_identifier :: "pystr option"
  g_event_oid :: "pystr option"
  g_form_oid :: "pystr option"
  g_item_group_oid :: "pystr option"
  g_identifier_colname :: "pystr option"
  g_gender_colname :: "pystr option"
  g_item_prefix :: "pystr option"
  g_query :: "pystr option"

definition read_global :: "string \<Rightarrow> pystr option \<Rightarrow> error + pystr" where
  "read_global name v = (case v of None \<Rightarrow> Inl (NameError name) | Some x \<Rightarrow> Inr x)"

text \<open>A row of \<open>iterrows\<close>, and \<open>row[name]\<close>.\<close>

type_synonym 'f row = "(pystr \<times> 'f cell) list"

definition row_item :: "'f row \<Rightarrow> pystr \<Rightarrow> error + 'f cell" where
  "row_item row name = (case map_of row name of None \<Rightarrow> Inl (KeyError name) | Some v \<Rightarrow> Inr v)"

definition iterrows :: "'f dataframe \<Rightarrow> 'f row list" where
  "iterrows df = map (\<lambda>i. map (\<lambda>(c, d, vals). (c, vals ! i)) (df_data df)) [0..<df_len df]"

text \<open>\<open>df.rename(columns=mapping)\<close>\<close>

definition rename :: "'f dataframe \<Rightarrow> (pystr \<times> pystr) list \<Rightarrow> 'f dataframe" where
  "rename df mapping =
     df\<lparr>df_data := map (\<lambda>(c, d, vals). (case map_of mapping c of None \<Rightarrow> c | Some c' \<Rightarrow> c', d, vals))
                        (df_data df)\<rparr>"

text \<open>\<open>v is not None and pd.notna(v)\<close>, and the text of \<open>v\<close> in an f-string.\<close>

definition notna :: "'f pylib \<Rightarrow> 'f cell \<Rightarrow> bool" where
  "notna lib v =
     (case v of CStr s \<Rightarrow> True | CInt n \<Rightarrow> True | CFloat x \<Rightarrow> \<not> float_isnan lib x
      | CNone \<Rightarrow> False | CNaN \<Rightarrow> False | CNA \<Rightarrow> False)"

definition format_cell :: "'f pylib \<Rightarrow> 'f cell \<Rightarrow> pystr" where
  "format_cell lib v =
     (case v of CStr s \<Rightarrow> s | CInt n \<Rightarrow> str_of_int n | CFloat x \<Rightarrow> float_str lib x
      | CNone \<Rightarrow> py ''None'' | CNaN \<Rightarrow> py ''nan'' | CNA \<Rightarrow> py ''<NA>'')"

text \<open>Lines 255--257: what becomes of the value of a field before it is embedded.\<close>

definition ascii_range :: nat where
  "ascii_range = 127"

definition to_ascii :: "'f pylib \<Rightarrow> 'f cell \<Rightarrow> 'f cell" where
  "to_ascii lib v =
     (case v of
        CStr s \<Rightarrow> (if list_ex (\<lambda>char. char > ascii_range) s then CStr (unidecode lib s) else v)
      | _ \<Rightarrow> v)"

text \<open>Lines 213--227: the label of the row and its subject OID.\<close>

definition resolve_subject ::
  "'f pylib \<Rightarrow> 'f world \<Rightarrow> globals \<Rightarrow> lcconfig \<Rightarrow> 'f row \<Rightarrow> nat \<Rightarrow> 'f effect list
     \<Rightarrow> (error + 'f cell \<times> pystr) \<times> 'f effect list" where
  "resolve_subject lib w g config row subject_iteration tr =
     (let tr1 = tr @ [Log Info (L_iteration subject_iteration)]
      in case read_global ''identifier_colname'' (g_identifier_colname g) of
           Inl e \<Rightarrow> (Inl e, tr1)
         | Inr identifier_colname \<Rightarrow>
       (case row_item row identifier_colname of
           Inl e \<Rightarrow> (Inl e, tr1)
         | Inr ss_label \<Rightarrow>
       (let tr2 = tr1 @ [Log Info (L_adding ss_label)]
        in case read_global ''study_identifier'' (g_study_identifier g) of
           Inl e \<Rightarrow> (Inl e, tr2)
         | Inr study_identifier \<Rightarrow>
       (case read_global ''gender_colname'' (g_gender_colname g) of
           Inl e \<Rightarrow> (Inl e, tr2)
         | Inr gender_colname \<Rightarrow>
       (case row_item row gender_colname of
           Inl e \<Rightarrow> (Inl e, tr2)
         | Inr ss_gender \<Rightarrow>
       (case get_lc_ss_oid lib w (cfg_lc_endpoint config) (cfg_lc_user config)
               (cfg_lc_password config) study_identifier ss_label ss_gender False tr2 of
           (Inl e, tr3) \<Rightarrow> (Inl e, tr3)
         | (Inr ss_oid, tr3) \<Rightarrow> (Inr (ss_label, ss_oid), tr3 @ [Log Info (L_got_oid ss_oid)])))))))"

text \<open>Lines 229--246: scheduling the event; a \<open>Fail\<close> is logged and nothing more.\<close>

definition schedule_event ::
  "'f world \<Rightarrow> globals \<Rightarrow> lcconfig \<Rightarrow> 'f cell \<Rightarrow> 'f effect list \<Rightarrow> (error + unit) \<times> 'f effect list" where
  "schedule_event w g config ss_label tr =
     (case read_global ''study_identifier'' (g_study_identifier g) of
        Inl e \<Rightarrow> (Inl e, tr)
      | Inr study_identifier \<Rightarrow>
     (case read_global ''event_oid'' (g_event_oid g) of
        Inl e \<Rightarrow> (Inl e, tr)
      | Inr event_oid \<Rightarrow>
     (let event = \<lparr>ev_label = ss_label, ev_studyRef = study_identifier,
                   ev_eventDefinitionOID = event_oid, ev_startDate = py ''2000-01-01'',
                   ev_location = py ''NL''\<rparr>;
          c = Schedule (cfg_lc_endpoint config @ py ''event/v1/eventWsdl.wsdl'')
                (cfg_lc_user config, cfg_lc_password config) event;
          tr1 = tr @ [Call c]
      in case soap w tr c of
           Inl e \<Rightarrow> (Inl e, tr1)
         | Inr ret \<Rightarrow>
             (let tr2 = tr1 @ [Log Info (L_schedule_code (ret_result ret))]
              in (Inr (),
                  if ret_result ret = py ''Fail''
                  then tr2 @ [Log Warning (L_schedule_fail (ret_error ret))] else tr2)))))"

text \<open>Lines 250--258: one \<open>ItemData\<close> element for every field that is not missing.\<close>

fun build_items ::
  "'f pylib \<Rightarrow> globals \<Rightarrow> 'f row \<Rightarrow> pystr list \<Rightarrow> (pystr \<times> pystr) list
     \<Rightarrow> error + (pystr \<times> pystr) list" where
  "build_items lib g row [] items = Inr items"
| "build_items lib g row (name # names) items =
     (case read_global ''identifier_colname'' (g_identifier_colname g) of
        Inl e \<Rightarrow> Inl e
      | Inr identifier_colname \<Rightarrow>
          if name \<noteq> identifier_colname then
            (case row_item row name of
               Inl e \<Rightarrow> Inl e
             | Inr v \<Rightarrow>
                 if notna lib v then
                   (case read_global ''item_prefix'' (g_item_prefix g) of
                      Inl e \<Rightarrow> Inl e
                    | Inr item_prefix \<Rightarrow>
                        build_items lib g row names
                          (items @ [(item_prefix @ name, format_cell lib (to_ascii lib v))]))
                 else build_items lib g row names items)
          else build_items lib g row names items)"

text \<open>Lines 261--310: the import request and its answer.\<close>

definition submit ::
  "'f world \<Rightarrow> globals \<Rightarrow> lcconfig \<Rightarrow> 'f cell \<Rightarrow> pystr \<Rightarrow> (pystr \<times> pystr) list \<Rightarrow> 'f effect list
     \<Rightarrow> (error + http_ret) \<times> 'f effect list" where
  "submit w g config ss_label ss_oid items tr =
     (case read_global ''event_oid'' (g_event_oid g) of
        Inl e \<Rightarrow> (Inl e, tr)
      | Inr event_oid \<Rightarrow>
     (case read_global ''form_oid'' (g_form_oid g) of
        Inl e \<Rightarrow> (Inl e, tr)
      | Inr form_oid \<Rightarrow>
     (case read_global ''item_group_oid'' (g_item_group_oid g) of
        Inl e \<Rightarrow> (Inl e, tr)
      | Inr item_group_oid \<Rightarrow>
     (let tr1 = tr @ [Log Info (L_starting_upload ss_label)]
      in case read_global ''study_oid'' (g_study_oid g) of
        Inl e \<Rightarrow> (Inl e, tr1)
      | Inr study_oid \<Rightarrow>
     (let submit_data =
            \<lparr>odm_user = cfg_lc_user config, odm_password = cfg_lc_password config,
             odm_study_oid = study_oid, odm_subject_key = ss_oid, odm_event_oid = event_oid,
             odm_form_oid = form_oid, odm_item_group_oid = item_group_oid, odm_items = items\<rparr>;
          c = PostData (cfg_lc_endpoint config @ py ''data/v1/dataWsdl.wsdl'') submit_data;
          tr2 = tr1 @ [Call c]
      in case post_data w tr1 c of
           Inl e \<Rightarrow> (Inl e, tr2)
         | Inr ret \<Rightarrow> (Inr ret, tr2 @ [Log Info (L_upload_code (http_status_code ret))]))))))"

text \<open>
  Lines 312--327.  \<open>len(result) > 0 and "Success" in result[0].text\<close>: only the first
  \<open>result\<close> element is looked at; likewise only the first \<open>error\<close> element.
\<close>

definition success_indicator :: "http_ret \<Rightarrow> bool" where
  "success_indicator ret =
     (case http_results ret of [] \<Rightarrow> False | r0 # _ \<Rightarrow> contains (py ''Success'') r0)"

definition interpret_response ::
  "http_ret \<Rightarrow> 'f cell \<Rightarrow> ('f cell \<times> pystr) list \<Rightarrow> 'f effect list
     \<Rightarrow> (error + ('f cell \<times> pystr) list) \<times> 'f effect list" where
  "interpret_response ret ss_label failed_subjects tr =
     (if success_indicator ret then
        (Inr failed_subjects,
         tr @ [Log Info L_succeeded, Log Info (L_result (hd (http_results ret)))])
      else
        (case http_errors ret of
           e0 # _ \<Rightarrow>
             (Inr (failed_subjects @ [(ss_label, e0)]),
              tr @ [Log Warning (L_upload_fail e0), Log Info (L_failed_subject (ss_label, e0))])
         | [] \<Rightarrow> (Inl (SysExit 1), tr @ [Log Error (L_no_result_or_error (http_text ret))])))"

text \<open>The body of the loop over the rows: lines 213--310, then lines 312--327.\<close>

definition upload_row ::
  "'f pylib \<Rightarrow> 'f world \<Rightarrow> globals \<Rightarrow> lcconfig \<Rightarrow> pystr list \<Rightarrow> 'f row \<Rightarrow> nat \<Rightarrow> 'f effect list
     \<Rightarrow> (error + 'f cell \<times> http_ret) \<times> 'f effect list" where
  "upload_row lib w g config columns row subject_iteration tr =
     (case resolve_subject lib w g config row subject_iteration tr of
        (Inl e, tr1) \<Rightarrow> (Inl e, tr1)
      | (Inr (ss_label, ss_oid), tr1) \<Rightarrow>
     (case schedule_event w g config ss_label tr1 of
        (Inl e, tr2) \<Rightarrow> (Inl e, tr2)
      | (Inr _, tr2) \<Rightarrow>
     (case build_items lib g row columns [] of
        Inl e \<Rightarrow> (Inl e, tr2)
      | Inr items \<Rightarrow>
     (case submit w g config ss_label ss_oid items tr2 of
        (Inl e, tr3) \<Rightarrow> (Inl e, tr3)
      | (Inr ret, tr3) \<Rightarrow> (Inr (ss_label, ret), tr3)))))"

definition process_row ::
  "'f pylib \<Rightarrow> 'f world \<Rightarrow> globals \<Rightarrow> lcconfig \<Rightarrow> pystr list \<Rightarrow> 'f row \<Rightarrow> ('f cell \<times> pystr) list
     \<Rightarrow> nat \<Rightarrow> 'f effect list \<Rightarrow> (error + ('f cell \<times> pystr) list) \<times> 'f effect list" where
  "process_row lib w g config columns row failed_subjects subject_iteration tr =
     (case upload_row lib w g config columns row subject_iteration tr of
        (Inl e, tr') \<Rightarrow> (Inl e, tr')
      | (Inr (ss_label, ret), tr') \<Rightarrow> interpret_response ret ss_label failed_subjects tr')"

fun run_rows ::
  "'f pylib \<Rightarrow> 'f world \<Rightarrow> globals \<Rightarrow> lcconfig \<Rightarrow> pystr list \<Rightarrow> 'f row list \<Rightarrow> ('f cell \<times> pystr) list
     \<Rightarrow> nat \<Rightarrow> 'f effect list \<Rightarrow> (error + ('f cell \<times> pystr) list) \<times> 'f effect list" where
  "run_rows lib w g config columns [] failed_subjects subject_iteration tr = (Inr failed_subjects, tr)"
| "run_rows lib w g config columns (row # rows) failed_subjects subject_iteration tr =
     (case process_row lib w g config columns row failed_subjects subject_iteration tr of
        (Inl e, tr') \<Rightarrow> (Inl e, tr')
      | (Inr failed_subjects', tr') \<Rightarrow>
          run_rows lib w g config columns rows failed_subjects' (subject_iteration + 1) tr')"

text \<open>
  \<open>upload_to_lc\<close> returns nothing; its outcome is how it ends (normally, or with an
  exception, \<open>sys.exit\<close> being one) and what it did on the way.
\<close>

definition upload_to_lc ::
  "'f pylib \<Rightarrow> 'f world \<Rightarrow> globals \<Rightarrow> lcconfig \<Rightarrow> 'f effect list \<Rightarrow> (error + unit) \<times> 'f effect list" where
  "upload_to_lc lib w g config tr =
     (if \<not> cfg_perform_query config then
        (Inl (SysExit 0), tr @ [Log Critical L_gate_disabled])
      else
        (let tr1 = tr @ [Log Info (L_retrieving (cfg_sparql_endpoint config))]
         in case read_global ''query'' (g_query g) of
              Inl e \<Rightarrow> (Inl e, tr1)
            | Inr qry \<Rightarrow>
          (case get_sparql_dataframe lib w qry True tr1 of
              (Inl e, tr2) \<Rightarrow> (Inl e, tr2)
            | (Inr df_sparql, tr2) \<Rightarrow>
                if df_len df_sparql = 0 then
                  (Inl (SysExit 1), tr2 @ [Log Error L_no_data])
                else
                  (let tr3 = tr2 @ [Log Info (L_received (df_len df_sparql))];
                       df = rename df_sparql (cfg_alternative_item_oids config);
                       tr4 = tr3 @ [Log Info (L_columns (df_columns df))]
                   in case run_rows lib w g config (df_columns df) (iterrows df) [] 1 tr4 of
                        (Inl e, tr5) \<Rightarrow> (Inl e, tr5)
                      | (Inr failed_subjects, tr5) \<Rightarrow>
                          (Inr (),
                           (if failed_subjects \<noteq> []
                            then tr5 @ [Log Warning (L_failed_list failed_subjects)] else tr5)
                           @ [Log Info (L_total (df_len df)),
                              Log Info (L_num_failed (length failed_subjects))])))))"

section \<open>Vocabulary of the properties\<close>

text \<open>The remote calls among the effects, in order.\<close>

fun calls :: "'f effect list \<Rightarrow> 'f call list" where
  "calls [] = []"
| "calls (Call c # es) = c # calls es"
| "calls (Log l m # es) = calls es"

text \<open>The existence check that \<open>get_lc_ss_oid\<close> sends (lines 70--79).\<close>

definition check_call :: "pystr \<Rightarrow> pystr \<Rightarrow> pystr \<Rightarrow> pystr \<Rightarrow> 'f cell \<Rightarrow> 'f call" where
  "check_call lc_endpoint lc_user lc_password study_identifier ss_label =
     IsStudySubject (lc_endpoint @ py ''study/v1/studySubjectWsdl.wsdl'') (lc_user, lc_password)
       \<lparr>sub_label = ss_label, sub_enrollmentDate = py ''1900-01-01'',
        sub_gender = None, sub_studyRef = study_identifier\<rparr>"

text \<open>
  The type of a column as the specification words it, from the first row alone: a
  \<open>uri\<close> binding makes the column categorical; a \<open>literal\<close> or \<open>typed-literal\<close>
  binding makes it integer, float or categorical for an integer, floating-point or string
  datatype, and leaves it free text otherwise.  The datatypes are the ones the code names:
  \<open>xsd:int\<close> and \<open>xsd:integer\<close> (\<open>integer_data_types\<close>), \<open>xsd:double\<close>, \<open>xsd:string\<close>.
\<close>

definition inferred_dtype :: "sparql_row \<Rightarrow> pystr \<Rightarrow> dtype" where
  "inferred_dtype first_row col =
     (let kind = row_get first_row col b_type; datatype = row_get first_row col b_datatype
      in if kind = Some (py ''uri'') then Category
         else if kind = Some (py ''literal'') \<or> kind = Some (py ''typed-literal'') then
           (if datatype \<in> Some ` integer_data_types then Int64
            else if datatype = Some xsd_double then Float64
            else if datatype = Some xsd_string then Category
            else Object)
         else Object)"

text \<open>
  What a cell of a column of each type is: a categorical cell is a text or NaN, an
  integer cell an integer or \<open>pd.NA\<close>, a float cell a float that is not NaN or
  \<open>pd.NA\<close>, a free-text cell a string or \<open>None\<close>.
\<close>

definition has_dtype :: "'f pylib \<Rightarrow> dtype \<Rightarrow> 'f cell \<Rightarrow> bool" where
  "has_dtype lib d v =
     (case d of
        Object \<Rightarrow> (case v of CStr s \<Rightarrow> True | CNone \<Rightarrow> True | _ \<Rightarrow> False)
      | Category \<Rightarrow> (case v of CStr s \<Rightarrow> True | CNaN \<Rightarrow> True | _ \<Rightarrow> False)
      | Int64 \<Rightarrow> (case v of CInt n \<Rightarrow> True | CNA \<Rightarrow> True | _ \<Rightarrow> False)
      | Float64 \<Rightarrow> (case v of CFloat x \<Rightarrow> \<not> float_isnan lib x | CNA \<Rightarrow> True | _ \<Rightarrow> False))"

text \<open>
  What becomes of the JSON value of a cell in a column of each type (the value is absent
  when the row has no binding for the column).
\<close>

definition coerce :: "'f pylib \<Rightarrow> dtype \<Rightarrow> pystr option \<Rightarrow> 'f cell" where
  "coerce lib d v =
     (case d of
        Object \<Rightarrow> (case v of None \<Rightarrow> CNone | Some s \<Rightarrow> CStr s)
      | Category \<Rightarrow> (case v of None \<Rightarrow> CNaN | Some s \<Rightarrow> CStr s)
      | Int64 \<Rightarrow>
          (case v of
             None \<Rightarrow> CNA
           | Some s \<Rightarrow> (case py_int lib s of None \<Rightarrow> CNA | Some n \<Rightarrow> CInt n))
      | Float64 \<Rightarrow>
          (case v of
             None \<Rightarrow> CNA
           | Some s \<Rightarrow>
               (case py_float lib s of
                  None \<Rightarrow> CNA
                | Some x \<Rightarrow> (if float_isnan lib x then CNA else CFloat x))))"


section \<open>A small library and a small remote system, for examples\<close>

text \<open>
  An \<open>int\<close> that reads ASCII digits after an optional minus sign, floats that are whole
  numbers, and a transliteration table with two entries.
\<close>

fun demo_digits :: "nat \<Rightarrow> pystr \<Rightarrow> nat option" where
  "demo_digits acc [] = Some acc"
| "demo_digits acc (c # cs) =
     (if 48 \<le> c \<and> c \<le> 57 then demo_digits (10 * acc + (c - 48)) cs else None)"

definition demo_int :: "pystr \<Rightarrow> int option" where
  "demo_int s =
     (case s of
        [] \<Rightarrow> None
      | c # cs \<Rightarrow>
          (if c = 45 then (if cs = [] then None else map_option (\<lambda>n. - int n) (demo_digits 0 cs))
           else map_option int (demo_digits 0 s)))"

definition demo_lib :: "int pylib" where
  "demo_lib =
     \<lparr>py_int = demo_int, py_float = demo_int, float_isnan = (\<lambda>x. False),
      float_eq_int = (\<lambda>x n. x = n), float_str = (\<lambda>x. str_of_int x @ py ''.0''),
      translit = (\<lambda>c. if c = 252 then py ''u'' else if c = 233 then py ''e'' else py ''?'')\<rparr>"

definition xsd_integer :: pystr where
  "xsd_integer = py ''http://www.w3.org/2001/XMLSchema#integer''"

definition lit :: "pystr \<Rightarrow> binding" where
  "lit v = \<lparr>b_value = Some v, b_type = Some (py ''literal''), b_datatype = None\<rparr>"

definition typed :: "pystr \<Rightarrow> pystr \<Rightarrow> binding" where
  "typed dt v = \<lparr>b_value = Some v, b_type = Some (py ''typed-literal''), b_datatype = Some dt\<rparr>"

text \<open>
  Three subjects; the town of the first is Zurich written with u-umlaut (code point 252), the third
  has none.  In \<open>demo_json_na\<close> the second subject has no binding for its gender and the
  gender of the third is not a number.
\<close>

definition demo_json :: sparql_json where
  "demo_json =
     \<lparr>head_vars = [py ''id'', py ''sex'', py ''town''],
      bindings =
        [[(py ''id'', lit (py ''P1'')), (py ''sex'', typed xsd_integer (py ''1'')),
          (py ''town'', typed xsd_string [90, 252, 114, 105, 99, 104])],
         [(py ''id'', lit (py ''P2'')), (py ''sex'', typed xsd_integer (py ''2'')),
          (py ''town'', typed xsd_string (py ''Bonn''))],
         [(py ''id'', lit (py ''P3'')), (py ''sex'', typed xsd_integer (py ''1''))]]\<rparr>"

definition demo_json_na :: sparql_json where
  "demo_json_na =
     \<lparr>head_vars = [py ''id'', py ''sex''],
      bindings =
        [[(py ''id'', lit (py ''P1'')), (py ''sex'', typed xsd_integer (py ''1''))],
         [(py ''id'', lit (py ''P4''))],
         [(py ''id'', lit (py ''P5'')), (py ''sex'', typed xsd_integer (py ''n/a''))]]\<rparr>"

definition empty_json :: sparql_json where
  "empty_json = \<lparr>head_vars = [py ''id'', py ''sex''], bindings = []\<rparr>"

text \<open>
  The remote system: \<open>P1\<close> is known; creating \<open>P2\<close> is refused; any other subject is
  known once it has been created.  An import without a subject key is answered by an
  error, any other by a success.
\<close>

fun created :: "'f effect list \<Rightarrow> 'f cell \<Rightarrow> bool" where
  "created [] l = False"
| "created (Call (Create u h sub) # es) l = (sub_label sub = l \<or> created es l)"
| "created (e # es) l = created es l"

definition soap_ok :: "pystr list \<Rightarrow> soap_ret" where
  "soap_ok raw = \<lparr>ret_result = py ''Success'', ret_error = [], ret_raw_elements = raw\<rparr>"

definition soap_fail :: "pystr \<Rightarrow> soap_ret" where
  "soap_fail msg = \<lparr>ret_result = py ''Fail'', ret_error = msg, ret_raw_elements = []\<rparr>"

definition demo_soap :: "int effect list \<Rightarrow> int call \<Rightarrow> error + soap_ret" where
  "demo_soap tr c =
     (case c of
        IsStudySubject u h sub \<Rightarrow>
          (if sub_label sub = CStr (py ''P1'') then Inr (soap_ok [py ''SS_P1''])
           else if sub_label sub \<noteq> CStr (py ''P2'') \<and> created tr (sub_label sub)
           then Inr (soap_ok [py ''SS_NEW''])
           else Inr (soap_fail (py ''unknown'')))
      | Create u h sub \<Rightarrow>
          (if sub_label sub = CStr (py ''P2'') then Inr (soap_fail (py ''refused''))
           else Inr (soap_ok []))
      | Schedule u h ev \<Rightarrow>
          (if ev_label ev = CStr (py ''P2'') then Inr (soap_fail (py ''unknown''))
           else Inr (soap_ok []))
      | _ \<Rightarrow> Inr (soap_fail (py ''bad request'')))"

definition http_ok :: http_ret where
  "http_ok = \<lparr>http_status_code = 200, http_text = py ''<result>Success</result>'',
              http_results = [py ''Success''], http_errors = []\<rparr>"

definition http_fail :: "pystr \<Rightarrow> http_ret" where
  "http_fail msg = \<lparr>http_status_code = 200, http_text = py ''<result>Fail</result><error/>'',
                    http_results = [py ''Fail''], http_errors = [msg]\<rparr>"

definition demo_post_data :: "int effect list \<Rightarrow> int call \<Rightarrow> error + http_ret" where
  "demo_post_data tr c =
     (case c of
        PostData u submit_data \<Rightarrow>
          (if odm_subject_key submit_data = [] then Inr (http_fail (py ''no subject''))
           else Inr http_ok)
      | _ \<Rightarrow> Inr (http_fail (py ''bad request'')))"

definition demo_world :: "sparql_json \<Rightarrow> int world" where
  "demo_world js =
     \<lparr>getenv = (\<lambda>name. if name = ''SPARQL_QUERY_ENDPOINT'' then Some (py ''http://fair/sparql'')
                        else if name = ''USER'' then Some (py ''u'')
                        else if name = ''USER_PWD'' then Some (py ''p'') else None),
      today = (\<lambda>tr. py ''2024-05-01''),
      sparql = (\<lambda>tr c. Inr \<lparr>sr_status_code = 200, sr_json = Inr js\<rparr>),
      soap = demo_soap,
      post_data = demo_post_data\<rparr>"

definition demo_globals :: globals where
  "demo_globals =
     \<lparr>g_study_oid = Some (py ''S_1''), g_study_identifier = Some (py ''ST''),
      g_event_oid = Some (py ''SE_1''), g_form_oid = Some (py ''F_1''),
      g_item_group_oid = Some (py ''IG_1''), g_identifier_colname = Some (py ''id''),
      g_gender_colname = Some (py ''sex''), g_item_prefix = Some (py ''I_''),
      g_query = Some (py ''SELECT'')\<rparr>"

definition no_globals :: globals where
  "no_globals =
     \<lparr>g_study_oid = None, g_study_identifier = None, g_event_oid = None, g_form_oid = None,
      g_item_group_oid = None, g_identifier_colname = None, g_gender_colname = None,
      g_item_prefix = None, g_query = None\<rparr>"

definition demo_config :: lcconfig where
  "demo_config =
     \<lparr>cfg_sparql_endpoint = py ''http://fair/sparql'', cfg_query = py ''SELECT'',
      cfg_lc_endpoint = py ''http://lc/'', cfg_lc_user = py ''u'', cfg_lc_password = py ''p'',
      cfg_study_oid = py ''S_1'', cfg_study_identifier = py ''ST'', cfg_event_oid = py ''SE_1'',
      cfg_form_oid = py ''F_1'', cfg_item_group_oid = py ''IG_1'',
      cfg_identifier_colname = py ''id'', cfg_gender_colname = py ''sex'',
      cfg_item_prefix = py ''I_'', cfg_alternative_item_oids = [], cfg_perform_query = True\<rparr>"

text \<open>A configuration that differs from \<open>demo_config\<close> in the fields the upload never reads.\<close>

definition other_config :: lcconfig where
  "other_config =
     \<lparr>cfg_sparql_endpoint = py ''http://fair/sparql'', cfg_query = py ''ASK'',
      cfg_lc_endpoint = py ''http://lc/'', cfg_lc_user = py ''u'', cfg_lc_password = py ''p'',
      cfg_study_oid = py ''S_2'', cfg_study_identifier = py ''ST2'', cfg_event_oid = py ''SE_2'',
      cfg_form_oid = py ''F_2'', cfg_item_group_oid = py ''IG_2'',
      cfg_identifier_colname = py ''name'', cfg_gender_colname = py ''g'',
      cfg_item_prefix = py ''J_'', cfg_alternative_item_oids = [], cfg_perform_query = True\<rparr>"


text \<open>
  Variants of the remote system: one that answers every import with the same response,
  a response with two \<open>result\<close> elements of which only the second reads
  \<open>Success\<close>, and a response with neither a \<open>result\<close> nor an \<open>error\<close> element.
\<close>

definition world_answering :: "http_ret \<Rightarrow> sparql_json \<Rightarrow> int world" where
  "world_answering r js = (demo_world js)\<lparr>post_data := (\<lambda>tr c. Inr r)\<rparr>"

definition two_results :: http_ret where
  "two_results =
     \<lparr>http_status_code = 200,
      http_text = py ''<r><result>Fail</result><result>Success</result></r>'',
      http_results = [py ''Fail'', py ''Success''], http_errors = []\<rparr>"

definition no_marker :: http_ret where
  "no_marker = \<lparr>http_status_code = 200, http_text = py ''<html/>'',
                http_results = [], http_errors = []\<rparr>"

definition demo_columns :: "pystr list" where
  "demo_columns = [py ''id'', py ''sex'']"

definition demo_row :: "pystr \<Rightarrow> int \<Rightarrow> int row" where
  "demo_row l sex = [(py ''id'', CStr l), (py ''sex'', CInt sex)]"


definition town_columns :: "pystr list" where
  "town_columns = [py ''id'', py ''sex'', py ''town'']"

definition town_row :: "int row" where
  "town_row = [(py ''id'', CStr (py ''P1'')), (py ''sex'', CInt 1),
               (py ''town'', CStr [90, 252, 114, 105, 99, 104])]"


text \<open>The entry of a column before and after it has been typed.\<close>

definition raw_entry :: "sparql_row list \<Rightarrow> pystr \<Rightarrow> pystr \<times> dtype \<times> 'f cell list" where
  "raw_entry rows col = (col, Object, map (\<lambda>row. raw_cell (row_get row col b_value)) rows)"

definition typed_entry ::
  "'f pylib \<Rightarrow> sparql_row \<Rightarrow> sparql_row list \<Rightarrow> pystr \<Rightarrow> pystr \<times> dtype \<times> 'f cell list" where
  "typed_entry lib first_row rows col =
     (col, inferred_dtype first_row col,
      map (\<lambda>row. coerce lib (inferred_dtype first_row col) (row_get row col b_value)) rows)"


text \<open>A result whose columns are declared \<open>xsd:long\<close> and \<open>xsd:float\<close>.\<close>

definition xsd_long :: pystr where
  "xsd_long = py ''http://www.w3.org/2001/XMLSchema#long''"

definition xsd_float :: pystr where
  "xsd_float = py ''http://www.w3.org/2001/XMLSchema#float''"

definition long_json :: sparql_json where
  "long_json =
     \<lparr>head_vars = [py ''n'', py ''x''],
      bindings =
        [[(py ''n'', typed xsd_long (py ''7'')), (py ''x'', typed xsd_float (py ''1.5''))],
         [(py ''n'', typed xsd_long (py ''8'')), (py ''x'', typed xsd_float (py ''2.5''))]]\<rparr>"


text \<open>
  The labels for which an import was started (the log line before each import request),
  and the number of import requests among the effects.
\<close>

fun uploads :: "'f effect list \<Rightarrow> 'f cell list" where
  "uploads [] = []"
| "uploads (Log l (L_starting_upload x) # es) = x # uploads es"
| "uploads (e # es) = uploads es"

definition is_post :: "'f call \<Rightarrow> bool" where
  "is_post c = (case c of PostData u submit_data \<Rightarrow> True | _ \<Rightarrow> False)"

definition posts :: "'f effect list \<Rightarrow> nat" where
  "posts tr = length (filter is_post (calls tr))"

text \<open>
  Assumptions on the remote system under which nothing but the answer to an import can end
  a batch: the SOAP service always answers, and a successful existence check carries an
  OID; the import service always answers, with a success or an error marker.
\<close>

definition soap_answers :: "'f world \<Rightarrow> bool" where
  "soap_answers w =
     (\<forall>tr c. case soap w tr c of
        Inl e \<Rightarrow> False
      | Inr ret \<Rightarrow>
          (case c of
             IsStudySubject u h sub \<Rightarrow>
               ret_result ret \<noteq> py ''Success'' \<or> ret_raw_elements ret \<noteq> []
           | _ \<Rightarrow> True))"

definition import_answers :: "'f world \<Rightarrow> bool" where
  "import_answers w =
     (\<forall>tr c. case post_data w tr c of
        Inl e \<Rightarrow> False
      | Inr ret \<Rightarrow> success_indicator ret \<or> http_errors ret \<noteq> [])"

definition globals_bound :: "globals \<Rightarrow> bool" where
  "globals_bound g =
     (g_study_oid g \<noteq> None \<and> g_study_identifier g \<noteq> None \<and> g_event_oid g \<noteq> None \<and>
      g_form_oid g \<noteq> None \<and> g_item_group_oid g \<noteq> None \<and> g_identifier_colname g \<noteq> None \<and>
      g_gender_colname g \<noteq> None \<and> g_item_prefix g \<noteq> None \<and> g_query g \<noteq> None)"

text \<open>
  The rows have the columns of the frame, among them the identifier and the gender
  column, and no gender is \<open>pd.NA\<close>.
\<close>

definition rows_ok :: "globals \<Rightarrow> pystr list \<Rightarrow> 'f row list \<Rightarrow> bool" where
  "rows_ok g columns rows =
     (list_all (\<lambda>row. map fst row = columns) rows \<and>
      (case g_identifier_colname g of None \<Rightarrow> False | Some c \<Rightarrow> c \<in> set columns) \<and>
      (case g_gender_colname g of
         None \<Rightarrow> False
       | Some c \<Rightarrow> c \<in> set columns \<and> list_all (\<lambda>row. map_of row c \<noteq> Some CNA) rows))"

definition row_label :: "globals \<Rightarrow> 'f row \<Rightarrow> 'f cell" where
  "row_label g row = the (map_of row (the (g_identifier_colname g)))"

text \<open>The frame of \<open>demo_json\<close> and what precedes the loop over its rows.\<close>

definition demo_df :: "int dataframe" where
  "demo_df =
     \<lparr>df_len = 3,
      df_data =
        [(py ''id'', Object, [CStr (py ''P1''), CStr (py ''P2''), CStr (py ''P3'')]),
         (py ''sex'', Int64, [CInt 1, CInt 2, CInt 1]),
         (py ''town'', Category, [CStr [90, 252, 114, 105, 99, 104], CStr (py ''Bonn''), CNaN])]\<rparr>"

definition demo_query_trace :: "int effect list" where
  "demo_query_trace =
     [Log Info (L_retrieving (py ''http://fair/sparql'')),
      Call (SparqlPost (Some (py ''http://fair/sparql'')) (Some (Some (py ''u''), Some (py ''p'')))
              (py ''SELECT'')),
      Log Info (L_status_code 200)]"

definition demo_r1 :: "int row" where
  "demo_r1 = [(py ''id'', CStr (py ''P1'')), (py ''sex'', CInt 1),
              (py ''town'', CStr [90, 252, 114, 105, 99, 104])]"

definition demo_r2 :: "int row" where
  "demo_r2 = [(py ''id'', CStr (py ''P2'')), (py ''sex'', CInt 2), (py ''town'', CStr (py ''Bonn''))]"

definition demo_r3 :: "int row" where
  "demo_r3 = [(py ''id'', CStr (py ''P3'')), (py ''sex'', CInt 1), (py ''town'', CNaN)]"


section \<open>Properties\<close>

lemma calls_append [simp]: "calls (xs @ ys) = calls xs @ calls ys"
  by (induction xs rule: calls.induct) auto

subsection \<open>C3: a label that already exists\<close>

text \<open>
  C3.  When the existence check for a label succeeds and carries an OID,
  \<open>get_lc_ss_oid\<close> sends this one check and nothing else (no create), and returns that
  OID (the text of the last raw element) unchanged, whatever the gender and the
  \<open>rerun\<close> flag are.
\<close>

theorem get_lc_ss_oid_existing:
  assumes "soap w (tr @ [Log Info (L_trying ss_label)])
             (check_call lc_endpoint lc_user lc_password study_identifier ss_label) = Inr ret"
    and "ret_result ret = py ''Success''"
    and "ret_raw_elements ret \<noteq> []"
  shows "get_lc_ss_oid lib w lc_endpoint lc_user lc_password study_identifier ss_label ss_gender rerun tr =
           (Inr (last (ret_raw_elements ret)),
            tr @ [Log Info (L_trying ss_label),
                  Call (check_call lc_endpoint lc_user lc_password study_identifier ss_label),
                  Log Info (L_found (last (ret_raw_elements ret)))])"
proof -
  obtain oid rest where r: "rev (ret_raw_elements ret) = oid # rest"
    using assms(3) by (cases "rev (ret_raw_elements ret)") auto
  then have "last (ret_raw_elements ret) = oid"
    by (metis list.sel(1) hd_rev)
  with assms r show ?thesis
    by (subst get_lc_ss_oid.simps) (simp add: Let_def check_call_def)
qed

theorem get_lc_ss_oid_existing_witness:
  "soap (demo_world demo_json) ([] @ [Log Info (L_trying (CStr (py ''P1'')))])
     (check_call (py ''http://lc/'') (py ''u'') (py ''p'') (py ''ST'') (CStr (py ''P1'')))
     = Inr (soap_ok [py ''SS_P1''])
   \<and> ret_result (soap_ok [py ''SS_P1'']) = py ''Success''
   \<and> ret_raw_elements (soap_ok [py ''SS_P1'']) \<noteq> []
   \<and> get_lc_ss_oid demo_lib (demo_world demo_json) (py ''http://lc/'') (py ''u'') (py ''p'')
        (py ''ST'') (CStr (py ''P1'')) (CInt 2) True []
      = (Inr (py ''SS_P1''),
         [Log Info (L_trying (CStr (py ''P1''))),
          Call (check_call (py ''http://lc/'') (py ''u'') (py ''p'') (py ''ST'') (CStr (py ''P1''))),
          Log Info (L_found (py ''SS_P1''))])"
proof -
  have h1: "soap (demo_world demo_json) ([] @ [Log Info (L_trying (CStr (py ''P1'')))])
     (check_call (py ''http://lc/'') (py ''u'') (py ''p'') (py ''ST'') (CStr (py ''P1'')))
     = Inr (soap_ok [py ''SS_P1''])"
    by (simp add: demo_world_def demo_soap_def check_call_def)
  have h2: "ret_result (soap_ok [py ''SS_P1'']) = py ''Success''"
    by (simp add: soap_ok_def)
  have h3: "ret_raw_elements (soap_ok [py ''SS_P1'']) \<noteq> []"
    by (simp add: soap_ok_def)
  show ?thesis
    using get_lc_ss_oid_existing [OF h1 h2 h3, of demo_lib "CInt 2" True] h1 h2 h3
    by (simp add: soap_ok_def)
qed

subsection \<open>C2: the two early exits\<close>

text \<open>
  C2, as the code has it.  With the gate \<open>perform_query\<close> off, \<open>upload_to_lc\<close>
  exits at once with status 0, before the query is sent.  When the query returns no rows, it
  exits with status 1 after the query and its log line, before any call to the
  destination system.  In both cases no record is processed.
\<close>

theorem upload_to_lc_early_exit:
  "(\<not> cfg_perform_query config \<longrightarrow>
      upload_to_lc lib w g config tr = (Inl (SysExit 0), tr @ [Log Critical L_gate_disabled]))
   \<and> (cfg_perform_query config \<and> g_query g = Some qry
        \<and> sparql w (tr @ [Log Info (L_retrieving (cfg_sparql_endpoint config))])
             (SparqlPost (getenv w ''SPARQL_QUERY_ENDPOINT'')
                (Some (getenv w ''USER'', getenv w ''USER_PWD'')) qry) = Inr res
        \<and> sr_json res = Inr js \<and> bindings js = [] \<longrightarrow>
      upload_to_lc lib w g config tr =
        (Inl (SysExit 1),
         tr @ [Log Info (L_retrieving (cfg_sparql_endpoint config)),
               Call (SparqlPost (getenv w ''SPARQL_QUERY_ENDPOINT'')
                       (Some (getenv w ''USER'', getenv w ''USER_PWD'')) qry),
               Log Info (L_status_code (sr_status_code res)),
               Log Error L_no_data]))"
  by (simp add: upload_to_lc_def read_global_def get_sparql_dataframe_def Let_def
        materialize_def DataFrame_def)

theorem upload_to_lc_early_exit_witness:
  "\<not> cfg_perform_query (demo_config\<lparr>cfg_perform_query := False\<rparr>)
   \<and> upload_to_lc demo_lib (demo_world demo_json) demo_globals
        (demo_config\<lparr>cfg_perform_query := False\<rparr>) []
      = (Inl (SysExit 0), [Log Critical L_gate_disabled])
   \<and> cfg_perform_query demo_config \<and> bindings empty_json = []
   \<and> fst (upload_to_lc demo_lib (demo_world empty_json) demo_globals demo_config [])
      = Inl (SysExit 1)
   \<and> calls (snd (upload_to_lc demo_lib (demo_world empty_json) demo_globals demo_config []))
      = [SparqlPost (Some (py ''http://fair/sparql'')) (Some (Some (py ''u''), Some (py ''p'')))
           (py ''SELECT'')]"
proof -
  have a: "\<not> cfg_perform_query (demo_config\<lparr>cfg_perform_query := False\<rparr>)"
    by simp
  have b: "cfg_perform_query demo_config \<and> g_query demo_globals = Some (py ''SELECT'')
        \<and> sparql (demo_world empty_json) ([] @ [Log Info (L_retrieving (cfg_sparql_endpoint demo_config))])
             (SparqlPost (getenv (demo_world empty_json) ''SPARQL_QUERY_ENDPOINT'')
                (Some (getenv (demo_world empty_json) ''USER'', getenv (demo_world empty_json) ''USER_PWD''))
                (py ''SELECT'')) = Inr \<lparr>sr_status_code = 200, sr_json = Inr empty_json\<rparr>
        \<and> sr_json \<lparr>sr_status_code = 200, sr_json = Inr empty_json\<rparr> = Inr empty_json
        \<and> bindings empty_json = []"
    by (simp add: demo_config_def demo_globals_def demo_world_def empty_json_def)
  from a b
    upload_to_lc_early_exit [of "demo_config\<lparr>cfg_perform_query := False\<rparr>" demo_lib
      "demo_world demo_json" demo_globals "[]"]
    upload_to_lc_early_exit [of demo_config demo_lib "demo_world empty_json" demo_globals "[]"
      "py ''SELECT''" "\<lparr>sr_status_code = 200, sr_json = Inr empty_json\<rparr>" empty_json]
  show ?thesis
    by (simp add: demo_world_def)
qed

text \<open>
  The sentence of C2 that both exits are non-zero fails: with the gate off the exit
  status is 0.
\<close>

theorem gate_exit_status_counterexample:
  "fst (upload_to_lc demo_lib (demo_world demo_json) demo_globals
          (demo_config\<lparr>cfg_perform_query := False\<rparr>) []) = Inl (SysExit 0)"
  by (simp add: upload_to_lc_def)

subsection \<open>C1: what the answer to an import leads to\<close>

text \<open>
  C1, as the code has it.  For the answer to the import of a row: if its first
  \<open>result\<close> element has \<open>Success\<close> in its text, success is logged, the failure log
  is unchanged and the loop goes on with the next row; otherwise, if it has an \<open>error\<close>
  element, the pair of the label and the text of the first such element is appended to the
  failure log and the loop goes on with the next row; otherwise the process exits with
  status 1 and none of the remaining rows is processed.
\<close>

theorem response_handling:
  assumes "upload_row lib w g config columns row i tr = (Inr (ss_label, ret), tr')"
  shows "(success_indicator ret \<longrightarrow>
            run_rows lib w g config columns (row # rows) fs i tr =
            run_rows lib w g config columns rows fs (i + 1)
              (tr' @ [Log Info L_succeeded, Log Info (L_result (hd (http_results ret)))]))
       \<and> (\<not> success_indicator ret \<and> http_errors ret \<noteq> [] \<longrightarrow>
            run_rows lib w g config columns (row # rows) fs i tr =
            run_rows lib w g config columns rows (fs @ [(ss_label, hd (http_errors ret))]) (i + 1)
              (tr' @ [Log Warning (L_upload_fail (hd (http_errors ret))),
                      Log Info (L_failed_subject (ss_label, hd (http_errors ret)))]))
       \<and> (\<not> success_indicator ret \<and> http_errors ret = [] \<longrightarrow>
            run_rows lib w g config columns (row # rows) fs i tr =
            (Inl (SysExit 1), tr' @ [Log Error (L_no_result_or_error (http_text ret))]))"
  using assms
  by (cases "http_errors ret") (simp_all add: process_row_def interpret_response_def)

theorem response_handling_witness:
  "fst (upload_row demo_lib (world_answering no_marker demo_json) demo_globals demo_config
          demo_columns (demo_row (py ''P1'') 1) 1 []) = Inr (CStr (py ''P1''), no_marker)
   \<and> \<not> success_indicator no_marker \<and> http_errors no_marker = []
   \<and> fst (run_rows demo_lib (world_answering no_marker demo_json) demo_globals demo_config
          demo_columns [demo_row (py ''P1'') 1, demo_row (py ''P3'') 2] [] 1 []) = Inl (SysExit 1)
   \<and> length (calls (snd (run_rows demo_lib (world_answering no_marker demo_json) demo_globals
          demo_config demo_columns [demo_row (py ''P1'') 1, demo_row (py ''P3'') 2] [] 1 []))) = 3
   \<and> fst (upload_row demo_lib (demo_world demo_json) demo_globals demo_config
          demo_columns (demo_row (py ''P1'') 1) 1 []) = Inr (CStr (py ''P1''), http_ok)
   \<and> success_indicator http_ok
   \<and> fst (run_rows demo_lib (demo_world demo_json) demo_globals demo_config
          demo_columns [demo_row (py ''P1'') 1] [] 1 []) = Inr []
   \<and> fst (upload_row demo_lib (demo_world demo_json) demo_globals demo_config
          demo_columns (demo_row (py ''P2'') 2) 1 []) = Inr (CStr (py ''P2''), http_fail (py ''no subject''))
   \<and> \<not> success_indicator (http_fail (py ''no subject''))
   \<and> http_errors (http_fail (py ''no subject'')) \<noteq> []
   \<and> fst (run_rows demo_lib (demo_world demo_json) demo_globals demo_config
          demo_columns [demo_row (py ''P2'') 2] [] 1 []) = Inr [(CStr (py ''P2''), py ''no subject'')]"
proof -
  let ?u = "upload_row demo_lib (world_answering no_marker demo_json) demo_globals demo_config
              demo_columns (demo_row (py ''P1'') 1) 1 []"
  have h: "fst ?u = Inr (CStr (py ''P1''), no_marker)"
    by code_simp
  then have h': "?u = (Inr (CStr (py ''P1''), no_marker), snd ?u)"
    by (metis prod.collapse)
  have n: "\<not> success_indicator no_marker \<and> http_errors no_marker = []"
    by (simp add: success_indicator_def no_marker_def)
  have c: "length (calls (snd ?u)) = 3"
    by code_simp
  from response_handling [OF h', of "[demo_row (py ''P3'') 2]" "[]"] h n c
  have 1: "fst (run_rows demo_lib (world_answering no_marker demo_json) demo_globals demo_config
          demo_columns [demo_row (py ''P1'') 1, demo_row (py ''P3'') 2] [] 1 []) = Inl (SysExit 1)
      \<and> length (calls (snd (run_rows demo_lib (world_answering no_marker demo_json) demo_globals
          demo_config demo_columns [demo_row (py ''P1'') 1, demo_row (py ''P3'') 2] [] 1 []))) = 3"
    by simp
  let ?v = "upload_row demo_lib (demo_world demo_json) demo_globals demo_config
              demo_columns (demo_row (py ''P1'') 1) 1 []"
  have k: "fst ?v = Inr (CStr (py ''P1''), http_ok)"
    by code_simp
  then have k': "?v = (Inr (CStr (py ''P1''), http_ok), snd ?v)"
    by (metis prod.collapse)
  have s: "success_indicator http_ok"
    by (simp add: success_indicator_def http_ok_def py_def)
  from response_handling [OF k', of "[]" "[]"] s
  have 2: "fst (run_rows demo_lib (demo_world demo_json) demo_globals demo_config
          demo_columns [demo_row (py ''P1'') 1] [] 1 []) = Inr []"
    by simp
  let ?x = "upload_row demo_lib (demo_world demo_json) demo_globals demo_config
              demo_columns (demo_row (py ''P2'') 2) 1 []"
  have j: "fst ?x = Inr (CStr (py ''P2''), http_fail (py ''no subject''))"
    by code_simp
  then have j': "?x = (Inr (CStr (py ''P2''), http_fail (py ''no subject'')), snd ?x)"
    by (metis prod.collapse)
  have f: "\<not> success_indicator (http_fail (py ''no subject''))"
      "http_errors (http_fail (py ''no subject'')) \<noteq> []"
      "hd (http_errors (http_fail (py ''no subject''))) = py ''no subject''"
    by (simp_all add: success_indicator_def http_fail_def py_def)
  from response_handling [OF j', of "[]" "[]"] f
  have 3: "fst (run_rows demo_lib (demo_world demo_json) demo_globals demo_config
          demo_columns [demo_row (py ''P2'') 2] [] 1 []) = Inr [(CStr (py ''P2''), py ''no subject'')]"
    by simp
  from h n 1 k s 2 j f(1,2) 3 show ?thesis
    by blast
qed

text \<open>
  C1 as it is worded fails: a body with a \<open>result\<close> element reading \<open>Success\<close> that
  is not the first one is not taken for a success; having no \<open>error\<close> element either,
  it ends the process.
\<close>

theorem later_result_counterexample:
  "contains (py ''Success'') (http_results two_results ! 1)
   \<and> interpret_response two_results (CStr (py ''P1'') :: int cell) [] []
      = (Inl (SysExit 1), [Log Error (L_no_result_or_error (http_text two_results))])
   \<and> fst (upload_to_lc demo_lib (world_answering two_results demo_json) demo_globals demo_config [])
      = Inl (SysExit 1)"
  by code_simp

subsection \<open>The stages of one row\<close>

lemma submit_trace:
  "\<exists>pre. snd (submit w g config ss_label ss_oid items tr) = tr @ pre \<and>
     (fst (submit w g config ss_label ss_oid items tr) = Inr ret \<longrightarrow>
        (\<exists>so eo fo ig.
           g_study_oid g = Some so \<and> g_event_oid g = Some eo \<and> g_form_oid g = Some fo \<and>
           g_item_group_oid g = Some ig \<and>
           post_data w (tr @ [Log Info (L_starting_upload ss_label)])
             (PostData (cfg_lc_endpoint config @ py ''data/v1/dataWsdl.wsdl'')
                \<lparr>odm_user = cfg_lc_user config, odm_password = cfg_lc_password config,
                 odm_study_oid = so, odm_subject_key = ss_oid, odm_event_oid = eo,
                 odm_form_oid = fo, odm_item_group_oid = ig, odm_items = items\<rparr>) = Inr ret \<and>
           pre = [Log Info (L_starting_upload ss_label),
                  Call (PostData (cfg_lc_endpoint config @ py ''data/v1/dataWsdl.wsdl'')
                    \<lparr>odm_user = cfg_lc_user config, odm_password = cfg_lc_password config,
                     odm_study_oid = so, odm_subject_key = ss_oid, odm_event_oid = eo,
                     odm_form_oid = fo, odm_item_group_oid = ig, odm_items = items\<rparr>),
                  Log Info (L_upload_code (http_status_code ret))]))"
  by (auto simp add: submit_def read_global_def Let_def split: option.splits sum.splits)

lemma upload_row_Inr:
  assumes "upload_row lib w g config columns row i tr = (Inr (ss_label, ret), tr')"
  shows "\<exists>ss_oid tr1 tr2 items.
           resolve_subject lib w g config row i tr = (Inr (ss_label, ss_oid), tr1) \<and>
           schedule_event w g config ss_label tr1 = (Inr (), tr2) \<and>
           build_items lib g row columns [] = Inr items \<and>
           submit w g config ss_label ss_oid items tr2 = (Inr ret, tr')"
  using assms
  by (auto simp add: upload_row_def split: prod.splits sum.splits)

lemma build_items_mono:
  "build_items lib g row names items0 = Inr items \<Longrightarrow> set items0 \<subseteq> set items"
proof (induction names arbitrary: items0)
  case Nil
  then show ?case by simp
next
  case (Cons name names)
  then show ?case
    by (fastforce simp add: read_global_def split: option.splits sum.splits if_splits)
qed

lemma build_items_mem:
  assumes "build_items lib g row names items0 = Inr items"
    and "g_identifier_colname g = Some idc" and "g_item_prefix g = Some ip"
    and "name \<in> set names" and "name \<noteq> idc" and "map_of row name = Some v" and "notna lib v"
  shows "(ip @ name, format_cell lib (to_ascii lib v)) \<in> set items"
  using assms
proof (induction names arbitrary: items0)
  case Nil
  then show ?case by simp
next
  case (Cons n names)
  show ?case
  proof (cases "n = name")
    case True
    with Cons.prems have "build_items lib g row names
        (items0 @ [(ip @ name, format_cell lib (to_ascii lib v))]) = Inr items"
      by (simp add: read_global_def row_item_def)
    from build_items_mono [OF this] show ?thesis by simp
  next
    case False
    with Cons.prems have "name \<in> set names" by simp
    moreover from Cons.prems obtain items1 where "build_items lib g row names items1 = Inr items"
      by (auto simp add: read_global_def split: sum.splits if_splits)
    ultimately show ?thesis
      using Cons.IH Cons.prems by blast
  qed
qed

subsection \<open>C10: a row without an OID is uploaded all the same\<close>

text \<open>
  C10.  When the identity resolution of a row returns the empty string (lines 114 and
  117), the row is not skipped: the scheduling call is made, the payload is built, and the
  import request is sent with the empty string as its \<open>SubjectKey\<close>.  (The globals
  the steps read are bound, the scheduling call returns, and the fields of the row can
  be read.)
\<close>

theorem empty_oid_still_uploaded:
  assumes "resolve_subject lib w g config row i tr = (Inr (ss_label, []), tr1)"
    and "g_study_identifier g = Some si" and "g_event_oid g = Some eo"
    and "g_form_oid g = Some fo" and "g_item_group_oid g = Some ig" and "g_study_oid g = Some so"
    and "soap w tr1
           (Schedule (cfg_lc_endpoint config @ py ''event/v1/eventWsdl.wsdl'')
              (cfg_lc_user config, cfg_lc_password config)
              \<lparr>ev_label = ss_label, ev_studyRef = si, ev_eventDefinitionOID = eo,
               ev_startDate = py ''2000-01-01'', ev_location = py ''NL''\<rparr>) = Inr sret"
    and "build_items lib g row columns [] = Inr items"
  shows "calls (snd (upload_row lib w g config columns row i tr)) =
           calls tr1 @
           [Schedule (cfg_lc_endpoint config @ py ''event/v1/eventWsdl.wsdl'')
              (cfg_lc_user config, cfg_lc_password config)
              \<lparr>ev_label = ss_label, ev_studyRef = si, ev_eventDefinitionOID = eo,
               ev_startDate = py ''2000-01-01'', ev_location = py ''NL''\<rparr>,
            PostData (cfg_lc_endpoint config @ py ''data/v1/dataWsdl.wsdl'')
              \<lparr>odm_user = cfg_lc_user config, odm_password = cfg_lc_password config,
               odm_study_oid = so, odm_subject_key = [], odm_event_oid = eo,
               odm_form_oid = fo, odm_item_group_oid = ig, odm_items = items\<rparr>]"
  using assms
  by (simp add: upload_row_def schedule_event_def submit_def read_global_def Let_def
        split: sum.splits)

theorem empty_oid_still_uploaded_witness:
  "fst (resolve_subject demo_lib (demo_world demo_json) demo_globals demo_config
          (demo_row (py ''P2'') 2) 2 []) = Inr (CStr (py ''P2''), [])
   \<and> build_items demo_lib demo_globals (demo_row (py ''P2'') 2) demo_columns []
      = Inr [(py ''I_sex'', py ''2'')]
   \<and> drop 2 (calls (snd (upload_row demo_lib (demo_world demo_json) demo_globals demo_config
          demo_columns (demo_row (py ''P2'') 2) 2 []))) =
       [Schedule (py ''http://lc/event/v1/eventWsdl.wsdl'') (py ''u'', py ''p'')
          \<lparr>ev_label = CStr (py ''P2''), ev_studyRef = py ''ST'', ev_eventDefinitionOID = py ''SE_1'',
           ev_startDate = py ''2000-01-01'', ev_location = py ''NL''\<rparr>,
        PostData (py ''http://lc/data/v1/dataWsdl.wsdl'')
          \<lparr>odm_user = py ''u'', odm_password = py ''p'', odm_study_oid = py ''S_1'',
           odm_subject_key = [], odm_event_oid = py ''SE_1'', odm_form_oid = py ''F_1'',
           odm_item_group_oid = py ''IG_1'', odm_items = [(py ''I_sex'', py ''2'')]\<rparr>]"
proof -
  let ?r = "resolve_subject demo_lib (demo_world demo_json) demo_globals demo_config
              (demo_row (py ''P2'') 2) 2 []"
  have h: "fst ?r = Inr (CStr (py ''P2''), [])"
    by code_simp
  then have h': "?r = (Inr (CStr (py ''P2''), []), snd ?r)"
    by (metis prod.collapse)
  have c: "length (calls (snd ?r)) = 2"
    by code_simp
  have s: "soap (demo_world demo_json) (snd ?r)
           (Schedule (cfg_lc_endpoint demo_config @ py ''event/v1/eventWsdl.wsdl'')
              (cfg_lc_user demo_config, cfg_lc_password demo_config)
              \<lparr>ev_label = CStr (py ''P2''), ev_studyRef = py ''ST'', ev_eventDefinitionOID = py ''SE_1'',
               ev_startDate = py ''2000-01-01'', ev_location = py ''NL''\<rparr>)
           = Inr (soap_fail (py ''unknown''))"
    by (simp add: demo_world_def demo_soap_def)
  have b: "build_items demo_lib demo_globals (demo_row (py ''P2'') 2) demo_columns []
      = Inr [(py ''I_sex'', py ''2'')]"
    by code_simp
  have g: "g_study_identifier demo_globals = Some (py ''ST'')"
      "g_event_oid demo_globals = Some (py ''SE_1'')"
      "g_form_oid demo_globals = Some (py ''F_1'')"
      "g_item_group_oid demo_globals = Some (py ''IG_1'')"
      "g_study_oid demo_globals = Some (py ''S_1'')"
    by (simp_all add: demo_globals_def)
  from empty_oid_still_uploaded [OF h' g s b] h b c
  show ?thesis
    by (simp add: demo_config_def py_def)
qed

subsection \<open>C7: text fields are made ASCII\<close>

text \<open>
  C7.  For every text value of a row that is embedded in the import request (a field
  other than the identifier column): if it has a code point above 127, what is embedded
  is its \<open>unidecode\<close>, in which every such code point is replaced by its
  transliteration and every other one is kept; if all its code points are at most 127,
  the value is embedded unchanged.
\<close>

theorem text_field_ascii:
  assumes "upload_row lib w g config columns row i tr = (Inr (ss_label, ret), tr')"
    and "g_identifier_colname g = Some idc" and "g_item_prefix g = Some ip"
    and "name \<in> set columns" and "name \<noteq> idc" and "map_of row name = Some (CStr s)"
  shows "\<exists>pre u submit_data.
           calls tr' = pre @ [PostData u submit_data] \<and>
           (ip @ name, if list_ex (\<lambda>c. 127 < c) s then unidecode lib s else s)
             \<in> set (odm_items submit_data) \<and>
           (list_all (\<lambda>c. c \<le> 127) s \<longrightarrow> (ip @ name, s) \<in> set (odm_items submit_data)) \<and>
           unidecode lib s = concat (map (\<lambda>c. if 127 < c then translit lib c else [c]) s)"
proof -
  from upload_row_Inr [OF assms(1)] obtain ss_oid tr1 tr2 items where
    b: "build_items lib g row columns [] = Inr items" and
    s: "submit w g config ss_label ss_oid items tr2 = (Inr ret, tr')"
    by blast
  from submit_trace [of w g config ss_label ss_oid items tr2 ret] s
  obtain u submit_data where
    t: "tr' = tr2 @ [Log Info (L_starting_upload ss_label), Call (PostData u submit_data),
                     Log Info (L_upload_code (http_status_code ret))]"
    and i: "odm_items submit_data = items"
    by auto
  have m: "(ip @ name, format_cell lib (to_ascii lib (CStr s))) \<in> set items"
    using build_items_mem [OF b assms(2,3,4,5,6)] by (simp add: notna_def)
  have v: "format_cell lib (to_ascii lib (CStr s)) =
           (if list_ex (\<lambda>c. 127 < c) s then unidecode lib s else s)"
    by (simp add: format_cell_def to_ascii_def ascii_range_def)
  have a: "list_all (\<lambda>c. c \<le> 127) s \<Longrightarrow> \<not> list_ex (\<lambda>c. 127 < c) s"
    by (auto simp add: list_all_iff list_ex_iff)
  have d: "unidecode lib s = concat (map (\<lambda>c. if 127 < c then translit lib c else [c]) s)"
    unfolding unidecode_def by (rule arg_cong [where f = concat]) auto
  from t have c: "calls tr' = calls tr2 @ [PostData u submit_data]"
    by simp
  from m v i have e: "(ip @ name, if list_ex (\<lambda>c. 127 < c) s then unidecode lib s else s)
      \<in> set (odm_items submit_data)"
    by simp
  from e a have f: "list_all (\<lambda>c. c \<le> 127) s \<longrightarrow> (ip @ name, s) \<in> set (odm_items submit_data)"
    by auto
  from c e f d show ?thesis
    by blast
qed

theorem text_field_ascii_witness:
  "fst (upload_row demo_lib (demo_world demo_json) demo_globals demo_config town_columns
          town_row 1 []) = Inr (CStr (py ''P1''), http_ok)
   \<and> py ''town'' \<in> set town_columns \<and> map_of town_row (py ''town'') = Some (CStr [90, 252, 114, 105, 99, 104])
   \<and> (\<exists>pre u submit_data.
         calls (snd (upload_row demo_lib (demo_world demo_json) demo_globals demo_config
                  town_columns town_row 1 [])) = pre @ [PostData u submit_data]
         \<and> (py ''I_town'', py ''Zurich'') \<in> set (odm_items submit_data))"
proof -
  let ?u = "upload_row demo_lib (demo_world demo_json) demo_globals demo_config town_columns
              town_row 1 []"
  have h: "fst ?u = Inr (CStr (py ''P1''), http_ok)"
    by code_simp
  then have h': "?u = (Inr (CStr (py ''P1''), http_ok), snd ?u)"
    by (metis prod.collapse)
  have g: "g_identifier_colname demo_globals = Some (py ''id'')"
      "g_item_prefix demo_globals = Some (py ''I_'')"
    by (simp_all add: demo_globals_def)
  have n: "py ''town'' \<in> set town_columns" "py ''town'' \<noteq> py ''id''"
      "map_of town_row (py ''town'') = Some (CStr [90, 252, 114, 105, 99, 104])"
    by (simp_all add: town_columns_def town_row_def py_def)
  have e: "py ''I_'' @ py ''town'' = py ''I_town''"
      "(if list_ex (\<lambda>c. 127 < c) [90, 252, 114, 105, 99, 104 :: nat]
        then unidecode demo_lib [90, 252, 114, 105, 99, 104] else [90, 252, 114, 105, 99, 104])
       = py ''Zurich''"
    by (simp_all add: py_def unidecode_def demo_lib_def)
  from text_field_ascii [OF h' g n] h n(1,3) show ?thesis
    unfolding e by blast
qed

subsection \<open>C9: the fields of the configuration that are never read\<close>

lemma resolve_subject_config:
  assumes "cfg_lc_endpoint c1 = cfg_lc_endpoint c2" and "cfg_lc_user c1 = cfg_lc_user c2"
    and "cfg_lc_password c1 = cfg_lc_password c2"
  shows "resolve_subject lib w g c1 row i tr = resolve_subject lib w g c2 row i tr"
  unfolding resolve_subject_def assms by (rule refl)

lemma schedule_event_config:
  assumes "cfg_lc_endpoint c1 = cfg_lc_endpoint c2" and "cfg_lc_user c1 = cfg_lc_user c2"
    and "cfg_lc_password c1 = cfg_lc_password c2"
  shows "schedule_event w g c1 l tr = schedule_event w g c2 l tr"
  unfolding schedule_event_def assms by (rule refl)

lemma submit_config:
  assumes "cfg_lc_endpoint c1 = cfg_lc_endpoint c2" and "cfg_lc_user c1 = cfg_lc_user c2"
    and "cfg_lc_password c1 = cfg_lc_password c2"
  shows "submit w g c1 l oid items tr = submit w g c2 l oid items tr"
  unfolding submit_def assms by (rule refl)

lemma upload_row_config:
  assumes "cfg_lc_endpoint c1 = cfg_lc_endpoint c2" and "cfg_lc_user c1 = cfg_lc_user c2"
    and "cfg_lc_password c1 = cfg_lc_password c2"
  shows "upload_row lib w g c1 columns row i tr = upload_row lib w g c2 columns row i tr"
  unfolding upload_row_def resolve_subject_config [OF assms] schedule_event_config [OF assms]
    submit_config [OF assms]
  by (rule refl)

lemma run_rows_config:
  assumes "cfg_lc_endpoint c1 = cfg_lc_endpoint c2" and "cfg_lc_user c1 = cfg_lc_user c2"
    and "cfg_lc_password c1 = cfg_lc_password c2"
  shows "run_rows lib w g c1 columns rows fs i tr = run_rows lib w g c2 columns rows fs i tr"
proof (induction rows arbitrary: fs i tr)
  case Nil
  show ?case by simp
next
  case (Cons row rows)
  show ?case
    unfolding run_rows.simps process_row_def upload_row_config [OF assms] Cons.IH
    by (rule refl)
qed

lemma iterrows_nonempty: "0 < df_len df \<Longrightarrow> iterrows df \<noteq> []"
  by (simp add: iterrows_def)

lemma df_len_rename [simp]: "df_len (rename df m) = df_len df"
  by (simp add: rename_def)

text \<open>
  C9.  Two configurations that agree on \<open>sparql_endpoint\<close>, \<open>lc_endpoint\<close>,
  \<open>lc_user\<close>, \<open>lc_password\<close>, \<open>alternative_item_oids\<close> and \<open>perform_query\<close>
  make \<open>upload_to_lc\<close> behave the same, however they differ in \<open>query\<close>,
  \<open>study_oid\<close>, \<open>study_identifier\<close>, \<open>event_oid\<close>, \<open>form_oid\<close>,
  \<open>item_group_oid\<close>, \<open>identifier_colname\<close>, \<open>gender_colname\<close> and
  \<open>item_prefix\<close>: those are read from the module's globals.  So where the globals are
  unbound a call with the gate on ends in a \<open>NameError\<close>: for \<open>query\<close> before the
  query is sent, and, were \<open>query\<close> bound, for \<open>identifier_colname\<close> at the first row.
\<close>

theorem upload_ignores_config_fields:
  assumes "cfg_sparql_endpoint c1 = cfg_sparql_endpoint c2"
    and "cfg_lc_endpoint c1 = cfg_lc_endpoint c2"
    and "cfg_lc_user c1 = cfg_lc_user c2"
    and "cfg_lc_password c1 = cfg_lc_password c2"
    and "cfg_alternative_item_oids c1 = cfg_alternative_item_oids c2"
    and "cfg_perform_query c1 = cfg_perform_query c2"
  shows "upload_to_lc lib w g c1 tr = upload_to_lc lib w g c2 tr
       \<and> (cfg_perform_query c1 \<and> g_query g = None \<longrightarrow>
            upload_to_lc lib w g c1 tr =
              (Inl (NameError ''query''), tr @ [Log Info (L_retrieving (cfg_sparql_endpoint c1))]))
       \<and> (cfg_perform_query c1 \<and> g_query g = Some qry \<and> g_identifier_colname g = None
           \<and> get_sparql_dataframe lib w qry True
                (tr @ [Log Info (L_retrieving (cfg_sparql_endpoint c1))]) = (Inr df, tr2)
           \<and> 0 < df_len df \<longrightarrow>
            fst (upload_to_lc lib w g c1 tr) = Inl (NameError ''identifier_colname'')
            \<and> calls (snd (upload_to_lc lib w g c1 tr)) = calls tr2)"
proof -
  have 1: "upload_to_lc lib w g c1 tr = upload_to_lc lib w g c2 tr"
    unfolding upload_to_lc_def assms(1,5,6) run_rows_config [OF assms(2,3,4)]
    by (rule refl)
  have 2: "cfg_perform_query c1 \<and> g_query g = None \<longrightarrow>
            upload_to_lc lib w g c1 tr =
              (Inl (NameError ''query''), tr @ [Log Info (L_retrieving (cfg_sparql_endpoint c1))])"
    by (simp add: upload_to_lc_def read_global_def)
  have 3: "fst (upload_to_lc lib w g c1 tr) = Inl (NameError ''identifier_colname'')
           \<and> calls (snd (upload_to_lc lib w g c1 tr)) = calls tr2"
    if a: "cfg_perform_query c1" "g_query g = Some qry" "g_identifier_colname g = None"
      "get_sparql_dataframe lib w qry True
         (tr @ [Log Info (L_retrieving (cfg_sparql_endpoint c1))]) = (Inr df, tr2)"
      "0 < df_len df"
  proof -
    from a(5) obtain row rows where
      r: "iterrows (rename df (cfg_alternative_item_oids c1)) = row # rows"
      using iterrows_nonempty [of "rename df (cfg_alternative_item_oids c1)"]
      by (cases "iterrows (rename df (cfg_alternative_item_oids c1))") auto
    show ?thesis
      using a r
      by (simp add: upload_to_lc_def read_global_def Let_def process_row_def upload_row_def
            resolve_subject_def)
  qed
  from 1 2 3 show ?thesis by blast
qed

theorem upload_ignores_config_fields_witness:
  "cfg_sparql_endpoint demo_config = cfg_sparql_endpoint other_config
   \<and> cfg_lc_endpoint demo_config = cfg_lc_endpoint other_config
   \<and> cfg_lc_user demo_config = cfg_lc_user other_config
   \<and> cfg_lc_password demo_config = cfg_lc_password other_config
   \<and> cfg_alternative_item_oids demo_config = cfg_alternative_item_oids other_config
   \<and> cfg_perform_query demo_config = cfg_perform_query other_config
   \<and> cfg_query demo_config \<noteq> cfg_query other_config
   \<and> cfg_identifier_colname demo_config \<noteq> cfg_identifier_colname other_config
   \<and> upload_to_lc demo_lib (demo_world demo_json) demo_globals demo_config []
      = upload_to_lc demo_lib (demo_world demo_json) demo_globals other_config []
   \<and> cfg_perform_query demo_config \<and> g_query no_globals = None
   \<and> upload_to_lc demo_lib (demo_world demo_json) no_globals demo_config []
      = (Inl (NameError ''query''), [Log Info (L_retrieving (py ''http://fair/sparql''))])
   \<and> g_identifier_colname (no_globals\<lparr>g_query := Some (py ''SELECT'')\<rparr>) = None
   \<and> fst (upload_to_lc demo_lib (demo_world demo_json) (no_globals\<lparr>g_query := Some (py ''SELECT'')\<rparr>)
          demo_config []) = Inl (NameError ''identifier_colname'')"
proof -
  have a: "cfg_sparql_endpoint demo_config = cfg_sparql_endpoint other_config"
      "cfg_lc_endpoint demo_config = cfg_lc_endpoint other_config"
      "cfg_lc_user demo_config = cfg_lc_user other_config"
      "cfg_lc_password demo_config = cfg_lc_password other_config"
      "cfg_alternative_item_oids demo_config = cfg_alternative_item_oids other_config"
      "cfg_perform_query demo_config = cfg_perform_query other_config"
    by (simp_all add: demo_config_def other_config_def)
  have b: "cfg_query demo_config \<noteq> cfg_query other_config"
      "cfg_identifier_colname demo_config \<noteq> cfg_identifier_colname other_config"
    by (simp_all add: demo_config_def other_config_def py_def)
  have c: "cfg_perform_query demo_config" "g_query no_globals = None"
      "g_query (no_globals\<lparr>g_query := Some (py ''SELECT'')\<rparr>) = Some (py ''SELECT'')"
      "g_identifier_colname (no_globals\<lparr>g_query := Some (py ''SELECT'')\<rparr>) = None"
      "cfg_sparql_endpoint demo_config = py ''http://fair/sparql''"
    by (simp_all add: demo_config_def no_globals_def)
  let ?d = "get_sparql_dataframe demo_lib (demo_world demo_json) (py ''SELECT'') True
             ([] @ [Log Info (L_retrieving (cfg_sparql_endpoint demo_config))])"
  have "case fst ?d of Inl e \<Rightarrow> False | Inr df \<Rightarrow> df_len df = 3"
    by code_simp
  then obtain df where "fst ?d = Inr df" and d2: "0 < df_len df"
    by (cases "fst ?d") auto
  then have d: "?d = (Inr df, snd ?d)"
    by (metis prod.collapse)
  note d = d d2
  have e1: "upload_to_lc demo_lib (demo_world demo_json) demo_globals demo_config []
      = upload_to_lc demo_lib (demo_world demo_json) demo_globals other_config []"
    using upload_ignores_config_fields [OF a, of demo_lib "demo_world demo_json" demo_globals "[]"]
    by blast
  have e2: "upload_to_lc demo_lib (demo_world demo_json) no_globals demo_config []
      = (Inl (NameError ''query''), [Log Info (L_retrieving (py ''http://fair/sparql''))])"
  proof -
    from upload_ignores_config_fields [OF a, of demo_lib "demo_world demo_json" no_globals "[]"]
    have "cfg_perform_query demo_config \<and> g_query no_globals = None \<longrightarrow>
        upload_to_lc demo_lib (demo_world demo_json) no_globals demo_config [] =
        (Inl (NameError ''query''), [] @ [Log Info (L_retrieving (cfg_sparql_endpoint demo_config))])"
      by blast
    with c(1,2,5) show ?thesis
      by simp
  qed
  have e3: "fst (upload_to_lc demo_lib (demo_world demo_json) (no_globals\<lparr>g_query := Some (py ''SELECT'')\<rparr>)
          demo_config []) = Inl (NameError ''identifier_colname'')"
    using upload_ignores_config_fields [OF a, of demo_lib "demo_world demo_json"
      "no_globals\<lparr>g_query := Some (py ''SELECT'')\<rparr>" "[]" "py ''SELECT''" df "snd ?d"]
      c(1,3,4) d
    by blast
  from a b c(1,2,4) e1 e2 e3 show ?thesis
    by blast
qed

subsection \<open>The typed frame in closed form\<close>

lemma traverse_total:
  "(\<And>x. f x = Inr (h x)) \<Longrightarrow> traverse f xs = Inr (map h xs)"
  by (induction xs) simp_all

lemma convert_int_coerce:
  "convert (cell_raw (raw_cell v)) (cast_int lib) =
     Inr (case v of None \<Rightarrow> CNaN
          | Some s \<Rightarrow> (case py_int lib s of None \<Rightarrow> CNaN | Some n \<Rightarrow> CInt n))"
  by (simp add: convert_def cell_raw_def raw_cell_def cast_int_def split: option.splits)

lemma convert_float_coerce:
  "convert (cell_raw (raw_cell v)) (cast_float lib) =
     Inr (case v of None \<Rightarrow> CNaN
          | Some s \<Rightarrow> (case py_float lib s of None \<Rightarrow> CNaN | Some x \<Rightarrow> CFloat x))"
  by (simp add: convert_def cell_raw_def raw_cell_def cast_float_def split: option.splits)

lemma coerce_Object: "coerce lib Object v = raw_cell v"
  by (simp add: coerce_def raw_cell_def)

lemma coerce_Category: "coerce lib Category v = astype_category (raw_cell v)"
  by (simp add: coerce_def raw_cell_def astype_category_def split: option.splits)

lemma coerce_Int64:
  "coerce lib Int64 v =
     astype_Int64 (case v of None \<Rightarrow> CNaN
          | Some s \<Rightarrow> (case py_int lib s of None \<Rightarrow> CNaN | Some n \<Rightarrow> CInt n))"
  by (simp add: coerce_def astype_Int64_def split: option.splits)

lemma coerce_Float64:
  "coerce lib Float64 v =
     astype_Float64 lib (case v of None \<Rightarrow> CNaN
          | Some s \<Rightarrow> (case py_float lib s of None \<Rightarrow> CNaN | Some x \<Rightarrow> CFloat x))"
  by (simp add: coerce_def astype_Float64_def split: option.splits)

lemma has_dtype_coerce: "has_dtype lib d (coerce lib d v)"
  by (cases d) (simp_all add: has_dtype_def coerce_def split: option.splits)

lemma DataFrame_out:
  "DataFrame (map (\<lambda>row. map (\<lambda>col. row_get row col b_value) columns) rows) columns =
     \<lparr>df_len = length rows, df_data = map (raw_entry rows) columns\<rparr>"
proof -
  have "map (\<lambda>(j, col). (col, Object,
            map (\<lambda>item. raw_cell (item ! j))
              (map (\<lambda>row. map (\<lambda>col. row_get row col b_value) columns) rows)))
          (zip [0..<length columns] columns) = map (raw_entry rows) columns"
    by (rule nth_equalityI) (simp_all add: raw_entry_def)
  then show ?thesis
    by (simp add: DataFrame_def)
qed

lemma map_of_entries:
  assumes "col \<in> set columns" and "\<And>c. fst (e c) = c"
  shows "map_of (map e columns) col = Some (snd (e col))"
  using assms(1)
proof (induction columns)
  case Nil
  then show ?case by simp
next
  case (Cons c cs)
  have "e c = (c, snd (e c))"
    by (metis assms(2) prod.collapse)
  then have "map_of (map e (c # cs)) col = (if c = col then Some (snd (e c)) else map_of (map e cs) col)"
    by (metis list.simps(9) map_of_Cons_code(2))
  with Cons show ?case
    by auto
qed

lemma type_column_step:
  assumes "df_data df = map (\<lambda>c. if c \<in> S then typed_entry lib first_row rows c else raw_entry rows c) columns"
    and "col \<in> set columns" and "col \<notin> S"
  shows "type_column lib first_row df col =
           Inr (df\<lparr>df_data := map (\<lambda>c. if c \<in> insert col S then typed_entry lib first_row rows c
                                        else raw_entry rows c) columns\<rparr>)"
proof -
  let ?e = "\<lambda>c. if c \<in> S then typed_entry lib first_row rows c else raw_entry rows c"
  let ?raw = "map (\<lambda>row. raw_cell (row_get row col b_value)) rows :: 'a cell list"
  have "map_of (map ?e columns) col = Some (snd (?e col))"
    by (rule map_of_entries [OF assms(2)]) (simp add: typed_entry_def raw_entry_def)
  with assms(1,3) have g: "get_column df col = Inr ?raw"
    by (simp add: get_column_def raw_entry_def)
  have s: "set_column df col d (map (\<lambda>row. coerce lib d (row_get row col b_value)) rows) =
           df\<lparr>df_data := map (\<lambda>c. if c \<in> insert col S then typed_entry lib first_row rows c
                                  else raw_entry rows c) columns\<rparr>"
    if "inferred_dtype first_row col = d" for d
    using that assms(1,3)
    by (auto simp add: set_column_def typed_entry_def raw_entry_def)
  have ti: "traverse (\<lambda>x. convert (cell_raw x) (cast_int lib)) ?raw =
            Inr (map (\<lambda>row. case row_get row col b_value of None \<Rightarrow> CNaN
                   | Some s \<Rightarrow> (case py_int lib s of None \<Rightarrow> CNaN | Some n \<Rightarrow> CInt n)) rows)"
    by (induction rows) (simp_all add: convert_int_coerce)
  have tf: "traverse (\<lambda>x. convert (cell_raw x) (cast_float lib)) ?raw =
            Inr (map (\<lambda>row. case row_get row col b_value of None \<Rightarrow> CNaN
                   | Some s \<Rightarrow> (case py_float lib s of None \<Rightarrow> CNaN | Some x \<Rightarrow> CFloat x)) rows)"
    by (induction rows) (simp_all add: convert_float_coerce)
  have u: "df = df\<lparr>df_data := map (\<lambda>c. if c \<in> insert col S then typed_entry lib first_row rows c
                                  else raw_entry rows c) columns\<rparr>"
    if "inferred_dtype first_row col = Object"
  proof -
    from that have "typed_entry lib first_row rows col = raw_entry rows col"
      by (simp add: typed_entry_def raw_entry_def coerce_Object)
    then have "map (\<lambda>c. if c \<in> insert col S then typed_entry lib first_row rows c
                        else raw_entry rows c) columns = map ?e columns"
      by auto
    with assms(1) show ?thesis by simp
  qed
  consider (cat) "inferred_dtype first_row col = Category"
    | (int) "inferred_dtype first_row col = Int64"
    | (flt) "inferred_dtype first_row col = Float64"
    | (obj) "inferred_dtype first_row col = Object"
    by (cases "inferred_dtype first_row col") auto
  then show ?thesis
  proof cases
    case cat
    from s [OF cat] have "set_column df col Category (map astype_category ?raw) =
        df\<lparr>df_data := map (\<lambda>c. if c \<in> insert col S then typed_entry lib first_row rows c
                                  else raw_entry rows c) columns\<rparr>"
      by (simp add: coerce_Category comp_def)
    with cat g show ?thesis
      by (auto simp add: type_column_def inferred_dtype_def Let_def literal_variable_types_def
            split: if_splits)
  next
    case int
    from s [OF int] have "set_column df col Int64
        (map astype_Int64 (map (\<lambda>row. case row_get row col b_value of None \<Rightarrow> CNaN
                   | Some s \<Rightarrow> (case py_int lib s of None \<Rightarrow> CNaN | Some n \<Rightarrow> CInt n)) rows)) =
        df\<lparr>df_data := map (\<lambda>c. if c \<in> insert col S then typed_entry lib first_row rows c
                                  else raw_entry rows c) columns\<rparr>"
      by (simp add: coerce_Int64 comp_def)
    with int g ti show ?thesis
      by (auto simp add: type_column_def inferred_dtype_def Let_def literal_variable_types_def
            split: if_splits)
  next
    case flt
    from s [OF flt] have "set_column df col Float64
        (map (astype_Float64 lib) (map (\<lambda>row. case row_get row col b_value of None \<Rightarrow> CNaN
                   | Some s \<Rightarrow> (case py_float lib s of None \<Rightarrow> CNaN | Some x \<Rightarrow> CFloat x)) rows)) =
        df\<lparr>df_data := map (\<lambda>c. if c \<in> insert col S then typed_entry lib first_row rows c
                                  else raw_entry rows c) columns\<rparr>"
      by (simp add: coerce_Float64 comp_def)
    with flt g tf show ?thesis
      by (auto simp add: type_column_def inferred_dtype_def Let_def literal_variable_types_def
            split: if_splits)
  next
    case obj
    from u [OF obj] obj show ?thesis
      by (auto simp add: type_column_def inferred_dtype_def Let_def literal_variable_types_def
            split: if_splits)
  qed
qed

lemma type_columns_closed:
  assumes "distinct cols" and "set cols \<subseteq> set columns" and "set cols \<inter> S = {}"
    and "df_data df = map (\<lambda>c. if c \<in> S then typed_entry lib first_row rows c else raw_entry rows c) columns"
  shows "type_columns lib first_row df cols =
           Inr (df\<lparr>df_data := map (\<lambda>c. if c \<in> S \<union> set cols then typed_entry lib first_row rows c
                                        else raw_entry rows c) columns\<rparr>)"
  using assms
proof (induction cols arbitrary: df S)
  case Nil
  then show ?case by simp
next
  case (Cons col cols)
  from Cons.prems have c: "col \<in> set columns" "col \<notin> S"
    by auto
  let ?df = "df\<lparr>df_data := map (\<lambda>c. if c \<in> insert col S then typed_entry lib first_row rows c
                                        else raw_entry rows c) columns\<rparr>"
  have "type_columns lib first_row ?df cols =
          Inr (?df\<lparr>df_data := map (\<lambda>c. if c \<in> insert col S \<union> set cols then typed_entry lib first_row rows c
                                        else raw_entry rows c) columns\<rparr>)"
    using Cons.prems by (intro Cons.IH) auto
  with type_column_step [OF Cons.prems(4) c] show ?case
    by simp
qed

lemma materialize_closed:
  assumes "distinct (head_vars js)" and "bindings js = first_row # rest"
  shows "materialize lib js =
           Inr \<lparr>df_len = length (bindings js),
                df_data = map (typed_entry lib first_row (bindings js)) (head_vars js)\<rparr>"
proof -
  let ?df = "\<lparr>df_len = length (bindings js),
              df_data = map (raw_entry (bindings js)) (head_vars js)\<rparr> :: 'a dataframe"
  have "type_columns lib first_row ?df (head_vars js) =
          Inr (?df\<lparr>df_data := map (\<lambda>c. if c \<in> {} \<union> set (head_vars js)
                                          then typed_entry lib first_row (bindings js) c
                                          else raw_entry (bindings js) c) (head_vars js)\<rparr>)"
    using assms(1) by (intro type_columns_closed) auto
  moreover have "map (\<lambda>c. if c \<in> {} \<union> set (head_vars js)
                           then typed_entry lib first_row (bindings js) c
                           else raw_entry (bindings js) c) (head_vars js)
                 = map (typed_entry lib first_row (bindings js)) (head_vars js)"
    by simp
  ultimately have "type_columns lib first_row ?df (head_vars js) =
      Inr \<lparr>df_len = length (bindings js),
           df_data = map (typed_entry lib first_row (bindings js)) (head_vars js)\<rparr>"
    by simp
  moreover have "materialize lib js =
      type_columns lib first_row
        (DataFrame (map (\<lambda>row. map (\<lambda>col. row_get row col b_value) (head_vars js)) (bindings js))
           (head_vars js)) (head_vars js)"
    unfolding materialize_def Let_def by (cases "bindings js") (use assms(2) in auto)
  ultimately show ?thesis
    by (simp only: DataFrame_out)
qed

subsection \<open>C5: the type of a column comes from the first row\<close>

text \<open>
  C5, as the code has it.  For a query result with at least one row (and distinct column
  names), the frame has, for every column, the type inferred from the binding of the first
  row alone (\<open>inferred_dtype\<close>: categorical for a \<open>uri\<close>; for a \<open>literal\<close> or
  \<open>typed-literal\<close>, integer for the datatypes \<open>xsd:int\<close> and \<open>xsd:integer\<close>, float
  for \<open>xsd:double\<close>, categorical for \<open>xsd:string\<close>, free text for any other datatype
  or none), and every cell of the column, whatever the bindings of the later rows are, is
  the value of its row coerced to that type, which is a cell of that type.  For a result
  without rows nothing is inferred: every column is left as it was built.
\<close>

theorem types_from_first_row:
  assumes "distinct (head_vars js)"
  shows "(bindings js = [] \<longrightarrow>
            materialize lib js =
              Inr \<lparr>df_len = 0, df_data = map (\<lambda>col. (col, Object, [])) (head_vars js)\<rparr>)
       \<and> (bindings js = first_row # rest \<longrightarrow>
            materialize lib js =
              Inr \<lparr>df_len = length (bindings js),
                   df_data =
                     map (\<lambda>col. (col, inferred_dtype first_row col,
                                   map (\<lambda>row. coerce lib (inferred_dtype first_row col)
                                                (row_get row col b_value)) (bindings js)))
                         (head_vars js)\<rparr>)
       \<and> has_dtype lib d (coerce lib d v)"
proof -
  have "materialize lib js =
          Inr \<lparr>df_len = 0, df_data = map (\<lambda>col. (col, Object, [])) (head_vars js)\<rparr>"
    if "bindings js = []"
  proof -
    have "map (\<lambda>(j, col). (col, Object, [])) (zip [0..<length (head_vars js)] (head_vars js))
          = map (\<lambda>col. (col, Object, [])) (head_vars js)"
      by (rule nth_equalityI) simp_all
    with that show ?thesis
      by (simp add: materialize_def DataFrame_def Let_def)
  qed
  moreover have "materialize lib js =
          Inr \<lparr>df_len = length (bindings js),
               df_data =
                 map (\<lambda>col. (col, inferred_dtype first_row col,
                               map (\<lambda>row. coerce lib (inferred_dtype first_row col)
                                            (row_get row col b_value)) (bindings js)))
                     (head_vars js)\<rparr>"
    if "bindings js = first_row # rest"
    using materialize_closed [OF assms that, of lib]
    by (simp add: typed_entry_def [abs_def])
  ultimately show ?thesis
    using has_dtype_coerce by blast
qed

theorem types_from_first_row_witness:
  "distinct (head_vars demo_json)
   \<and> materialize demo_lib demo_json =
       Inr \<lparr>df_len = 3,
            df_data =
              [(py ''id'', Object, [CStr (py ''P1''), CStr (py ''P2''), CStr (py ''P3'')]),
               (py ''sex'', Int64, [CInt 1, CInt 2, CInt 1]),
               (py ''town'', Category, [CStr [90, 252, 114, 105, 99, 104], CStr (py ''Bonn''), CNaN])]\<rparr>
   \<and> distinct (head_vars empty_json)
   \<and> materialize demo_lib empty_json =
       Inr \<lparr>df_len = 0, df_data = [(py ''id'', Object, []), (py ''sex'', Object, [])]\<rparr>"
proof -
  have d: "distinct (head_vars demo_json)" "distinct (head_vars empty_json)"
    by (simp_all add: demo_json_def empty_json_def py_def)
  have b: "bindings demo_json = hd (bindings demo_json) # tl (bindings demo_json)"
      "bindings empty_json = []"
    by (simp_all add: demo_json_def empty_json_def)
  have "materialize demo_lib demo_json =
          Inr \<lparr>df_len = length (bindings demo_json),
               df_data =
                 map (\<lambda>col. (col, inferred_dtype (hd (bindings demo_json)) col,
                               map (\<lambda>row. coerce demo_lib (inferred_dtype (hd (bindings demo_json)) col)
                                            (row_get row col b_value)) (bindings demo_json)))
                     (head_vars demo_json)\<rparr>"
    using types_from_first_row [OF d(1), where first_row = "hd (bindings demo_json)"
        and rest = "tl (bindings demo_json)" and lib = demo_lib]
      b(1)
    by blast
  moreover have "\<lparr>df_len = length (bindings demo_json),
               df_data =
                 map (\<lambda>col. (col, inferred_dtype (hd (bindings demo_json)) col,
                               map (\<lambda>row. coerce demo_lib (inferred_dtype (hd (bindings demo_json)) col)
                                            (row_get row col b_value)) (bindings demo_json)))
                     (head_vars demo_json)\<rparr> =
       \<lparr>df_len = 3,
            df_data =
              [(py ''id'', Object, [CStr (py ''P1''), CStr (py ''P2''), CStr (py ''P3'')]),
               (py ''sex'', Int64, [CInt 1, CInt 2, CInt 1]),
               (py ''town'', Category, [CStr [90, 252, 114, 105, 99, 104], CStr (py ''Bonn''), CNaN])]\<rparr>"
    by code_simp
  moreover have "materialize demo_lib empty_json =
       Inr \<lparr>df_len = 0, df_data = [(py ''id'', Object, []), (py ''sex'', Object, [])]\<rparr>"
    using types_from_first_row [OF d(2), where lib = demo_lib] b(2)
    by (simp add: empty_json_def)
  ultimately show ?thesis
    using d by simp
qed

text \<open>
  C5 as it is worded fails for the integer and floating-point datatypes that the code does
  not list: a column whose first row is an \<open>xsd:long\<close> or an \<open>xsd:float\<close> literal
  is left as free text.
\<close>

theorem other_numeric_datatypes_counterexample:
  "materialize demo_lib long_json =
     Inr \<lparr>df_len = 2,
          df_data = [(py ''n'', Object, [CStr (py ''7''), CStr (py ''8'')]),
                     (py ''x'', Object, [CStr (py ''1.5''), CStr (py ''2.5'')])]\<rparr>"
  by code_simp

subsection \<open>C6: what cannot be read as a number is missing\<close>

text \<open>
  C6.  \<open>convert\<close> with \<open>int\<close> or \<open>float\<close> never raises: for an absent value and
  for a string that the builtin rejects it gives NaN, not a number.  So in a column
  inferred as integer or float, the cell of a row whose value is absent or is not a
  number is the missing marker \<open>pd.NA\<close> (which is not the integer 0).
\<close>

theorem no_number_is_missing:
  "convert None cast_to = Inr CNaN
   \<and> (py_int lib s = None \<longrightarrow> convert (Some s) (cast_int lib) = Inr CNaN)
   \<and> (py_float lib s = None \<longrightarrow> convert (Some s) (cast_float lib) = Inr CNaN)
   \<and> convert v (cast_int lib) \<noteq> Inl e \<and> convert v (cast_float lib) \<noteq> Inl e
   \<and> (distinct (head_vars js) \<and> bindings js = first_row # rest \<and> col \<in> set (head_vars js)
        \<and> i < length (bindings js)
        \<and> (inferred_dtype first_row col = Int64
              \<and> (case row_get (bindings js ! i) col b_value of
                    None \<Rightarrow> True | Some x \<Rightarrow> py_int lib x = None)
            \<or> inferred_dtype first_row col = Float64
              \<and> (case row_get (bindings js ! i) col b_value of
                    None \<Rightarrow> True | Some x \<Rightarrow> py_float lib x = None)) \<longrightarrow>
       (\<exists>df d vals. materialize lib js = Inr df \<and> map_of (df_data df) col = Some (d, vals)
           \<and> length vals = length (bindings js) \<and> vals ! i = CNA \<and> vals ! i \<noteq> CInt 0))"
proof -
  have 1: "convert None cast_to = Inr CNaN"
    by (simp add: convert_def)
  have 2: "py_int lib s = None \<longrightarrow> convert (Some s) (cast_int lib) = Inr CNaN"
    by (simp add: convert_def cast_int_def)
  have 3: "py_float lib s = None \<longrightarrow> convert (Some s) (cast_float lib) = Inr CNaN"
    by (simp add: convert_def cast_float_def)
  have 4: "convert v (cast_int lib) \<noteq> Inl e" "convert v (cast_float lib) \<noteq> Inl e"
    by (simp_all add: convert_def cast_int_def cast_float_def split: option.splits)
  have 5: "\<exists>df d vals. materialize lib js = Inr df \<and> map_of (df_data df) col = Some (d, vals)
           \<and> length vals = length (bindings js) \<and> vals ! i = CNA \<and> vals ! i \<noteq> CInt 0"
    if a: "distinct (head_vars js)" "bindings js = first_row # rest" "col \<in> set (head_vars js)"
      "i < length (bindings js)"
      and b: "inferred_dtype first_row col = Int64
              \<and> (case row_get (bindings js ! i) col b_value of
                    None \<Rightarrow> True | Some x \<Rightarrow> py_int lib x = None)
            \<or> inferred_dtype first_row col = Float64
              \<and> (case row_get (bindings js ! i) col b_value of
                    None \<Rightarrow> True | Some x \<Rightarrow> py_float lib x = None)"
  proof -
    let ?vals = "map (\<lambda>row. coerce lib (inferred_dtype first_row col) (row_get row col b_value))
                   (bindings js)"
    have m: "map_of (map (typed_entry lib first_row (bindings js)) (head_vars js)) col =
             Some (snd (typed_entry lib first_row (bindings js) col))"
      by (rule map_of_entries [OF a(3)]) (simp add: typed_entry_def)
    from b have "coerce lib (inferred_dtype first_row col) (row_get (bindings js ! i) col b_value) = CNA"
      by (auto simp add: coerce_def split: option.splits)
    with a(4) have "?vals ! i = CNA"
      by simp
    with m materialize_closed [OF a(1,2), of lib] show ?thesis
      by (simp add: typed_entry_def)
  qed
  from 1 2 3 4 5 show ?thesis
    by blast
qed

theorem no_number_is_missing_witness:
  "py_int demo_lib (py ''n/a'') = None
   \<and> convert (Some (py ''n/a'')) (cast_int demo_lib) = Inr CNaN
   \<and> convert None (cast_int demo_lib) = Inr CNaN
   \<and> distinct (head_vars demo_json_na) \<and> py ''sex'' \<in> set (head_vars demo_json_na)
   \<and> inferred_dtype (hd (bindings demo_json_na)) (py ''sex'') = Int64
   \<and> row_get (bindings demo_json_na ! 1) (py ''sex'') b_value = None
   \<and> row_get (bindings demo_json_na ! 2) (py ''sex'') b_value = Some (py ''n/a'')
   \<and> (\<exists>df d vals. materialize demo_lib demo_json_na = Inr (df :: int dataframe)
         \<and> map_of (df_data df) (py ''sex'') = Some (d, vals)
         \<and> length vals = length (bindings demo_json_na) \<and> vals ! 1 = CNA \<and> vals ! 1 \<noteq> CInt 0)
   \<and> (\<exists>df d vals. materialize demo_lib demo_json_na = Inr (df :: int dataframe)
         \<and> map_of (df_data df) (py ''sex'') = Some (d, vals)
         \<and> length vals = length (bindings demo_json_na) \<and> vals ! 2 = CNA \<and> vals ! 2 \<noteq> CInt 0)
   \<and> materialize demo_lib demo_json_na =
       Inr \<lparr>df_len = 3,
            df_data =
              [(py ''id'', Object, [CStr (py ''P1''), CStr (py ''P4''), CStr (py ''P5'')]),
               (py ''sex'', Int64, [CInt 1, CNA, CNA])]\<rparr>"
proof -
  have p: "py_int demo_lib (py ''n/a'') = None"
    by code_simp
  have m: "materialize demo_lib demo_json_na =
       Inr \<lparr>df_len = 3,
            df_data =
              [(py ''id'', Object, [CStr (py ''P1''), CStr (py ''P4''), CStr (py ''P5'')]),
               (py ''sex'', Int64, [CInt 1, CNA, CNA])]\<rparr>"
    by code_simp
  have d: "distinct (head_vars demo_json_na)" "py ''sex'' \<in> set (head_vars demo_json_na)"
      "bindings demo_json_na = hd (bindings demo_json_na) # tl (bindings demo_json_na)"
      "1 < length (bindings demo_json_na)" "2 < length (bindings demo_json_na)"
    by (simp_all add: demo_json_na_def py_def)
  have i: "inferred_dtype (hd (bindings demo_json_na)) (py ''sex'') = Int64"
    by code_simp
  have v: "row_get (bindings demo_json_na ! 1) (py ''sex'') b_value = None"
      "row_get (bindings demo_json_na ! 2) (py ''sex'') b_value = Some (py ''n/a'')"
    by code_simp+
  note t = no_number_is_missing [where cast_to = "cast_int demo_lib" and lib = demo_lib
      and s = "py ''n/a''" and js = demo_json_na and first_row = "hd (bindings demo_json_na)"
      and rest = "tl (bindings demo_json_na)" and col = "py ''sex''"]
  from t [where i = 1] d i v(1)
  have a: "\<exists>df d vals. materialize demo_lib demo_json_na = Inr (df :: int dataframe)
         \<and> map_of (df_data df) (py ''sex'') = Some (d, vals)
         \<and> length vals = length (bindings demo_json_na) \<and> vals ! 1 = CNA \<and> vals ! 1 \<noteq> CInt 0"
    by simp
  from t [where i = 2] d i v(2) p
  have b: "\<exists>df d vals. materialize demo_lib demo_json_na = Inr (df :: int dataframe)
         \<and> map_of (df_data df) (py ''sex'') = Some (d, vals)
         \<and> length vals = length (bindings demo_json_na) \<and> vals ! 2 = CNA \<and> vals ! 2 \<noteq> CInt 0"
    by simp
  from t [where i = 1] p
  have c: "convert (Some (py ''n/a'')) (cast_int demo_lib) = Inr CNaN"
      "convert None (cast_int demo_lib) = Inr (CNaN :: int cell)"
    by blast+
  from p c d(1,2) i v a b m show ?thesis
    by blast
qed

subsection \<open>The resolver, case by case\<close>

lemma uploads_append [simp]: "uploads (xs @ ys) = uploads xs @ uploads ys"
  by (induction xs rule: uploads.induct) auto

lemma posts_append [simp]: "posts (xs @ ys) = posts xs + posts ys"
  by (simp add: posts_def)

lemma get_lc_ss_oid_rerun:
  "get_lc_ss_oid lib w lc_endpoint lc_user lc_password study_identifier ss_label ss_gender True tr =
     (case soap w (tr @ [Log Info (L_trying ss_label)])
             (check_call lc_endpoint lc_user lc_password study_identifier ss_label) of
        Inl e \<Rightarrow>
          (Inl e, tr @ [Log Info (L_trying ss_label),
                        Call (check_call lc_endpoint lc_user lc_password study_identifier ss_label)])
      | Inr ret \<Rightarrow>
          if ret_result ret = py ''Success'' then
            (case rev (ret_raw_elements ret) of
               [] \<Rightarrow>
                 (Inl IndexError,
                  tr @ [Log Info (L_trying ss_label),
                        Call (check_call lc_endpoint lc_user lc_password study_identifier ss_label)])
             | oid # _ \<Rightarrow>
                 (Inr oid,
                  tr @ [Log Info (L_trying ss_label),
                        Call (check_call lc_endpoint lc_user lc_password study_identifier ss_label),
                        Log Info (L_found oid)]))
          else
            (Inr [],
             tr @ [Log Info (L_trying ss_label),
                   Call (check_call lc_endpoint lc_user lc_password study_identifier ss_label),
                   Log Info L_not_available]))"
  by (subst get_lc_ss_oid.simps)
     (simp add: Let_def check_call_def split: sum.splits list.splits)

lemma get_lc_ss_oid_trace:
  "\<exists>ext. snd (get_lc_ss_oid lib w lc_endpoint lc_user lc_password study_identifier
                 ss_label ss_gender rerun tr) = tr @ ext
         \<and> uploads ext = [] \<and> posts ext = 0"
proof -
  have r: "\<exists>ext. snd (get_lc_ss_oid lib w lc_endpoint lc_user lc_password study_identifier
                 ss_label ss_gender True tr) = tr @ ext
         \<and> uploads ext = [] \<and> posts ext = 0" for tr
    unfolding get_lc_ss_oid_rerun
    by (auto simp add: posts_def check_call_def is_post_def split: sum.splits list.splits)
  show ?thesis
  proof (cases rerun)
    case True
    with r show ?thesis by simp
  next
    case False
    show ?thesis
    proof (cases "soap w (tr @ [Log Info (L_trying ss_label)])
             (check_call lc_endpoint lc_user lc_password study_identifier ss_label)")
      case (Inl e)
      with False show ?thesis
        by (subst get_lc_ss_oid.simps)
           (simp add: Let_def check_call_def posts_def is_post_def)
    next
      case (Inr ret)
      show ?thesis
      proof (cases "ret_result ret = py ''Success''")
        case True
        with Inr False show ?thesis
          by (subst get_lc_ss_oid.simps)
             (simp add: Let_def check_call_def posts_def is_post_def split: list.splits)
      next
        case nosucc: False
        show ?thesis
        proof (cases "gender_code lib ss_gender")
          case (Inl e)
          with Inr False nosucc show ?thesis
            by (subst get_lc_ss_oid.simps)
               (simp add: Let_def check_call_def posts_def is_post_def)
        next
          case g: (Inr gv)
          let ?tr3 = "tr @ [Log Info (L_trying ss_label),
                Call (check_call lc_endpoint lc_user lc_password study_identifier ss_label),
                Log Info L_creating]"
          let ?c = "Create (lc_endpoint @ py ''study/v1/studySubjectWsdl.wsdl'') (lc_user, lc_password)
                      \<lparr>sub_label = ss_label, sub_enrollmentDate = today w ?tr3,
                       sub_gender = Some gv, sub_studyRef = study_identifier\<rparr>"
          show ?thesis
          proof (cases "soap w ?tr3 ?c")
            case (Inl e)
            with Inr False nosucc g show ?thesis
              by (subst get_lc_ss_oid.simps)
                 (simp add: Let_def check_call_def posts_def is_post_def)
          next
            case c: (Inr ret')
            show ?thesis
            proof (cases "ret_result ret' = py ''Success''")
              case True
              from r [of "?tr3 @ [Call ?c, Log Info L_rerunning]"] obtain ext where
                e: "snd (get_lc_ss_oid lib w lc_endpoint lc_user lc_password study_identifier
                      ss_label ss_gender True (?tr3 @ [Call ?c, Log Info L_rerunning]))
                    = (?tr3 @ [Call ?c, Log Info L_rerunning]) @ ext"
                  "uploads ext = []" "posts ext = 0"
                by blast
              have "get_lc_ss_oid lib w lc_endpoint lc_user lc_password study_identifier
                      ss_label ss_gender rerun tr =
                    get_lc_ss_oid lib w lc_endpoint lc_user lc_password study_identifier
                      ss_label ss_gender True (?tr3 @ [Call ?c, Log Info L_rerunning])"
                using Inr False nosucc g c True
                by (subst get_lc_ss_oid.simps) (simp add: Let_def check_call_def)
              with e show ?thesis
                by (simp add: check_call_def posts_def is_post_def)
            next
              case False
              with Inr \<open>\<not> rerun\<close> nosucc g c show ?thesis
                by (subst get_lc_ss_oid.simps)
                   (simp add: Let_def check_call_def posts_def is_post_def)
            qed
          qed
        qed
      qed
    qed
  qed
qed

lemma soap_answers_any:
  assumes "soap_answers w"
  shows "\<exists>ret. soap w tr c = Inr ret"
proof -
  from assms have "case soap w tr c of Inl e \<Rightarrow> False | Inr ret \<Rightarrow> True"
    unfolding soap_answers_def by (metis (no_types, lifting) sum.case_eq_if)
  then show ?thesis
    by (cases "soap w tr c") auto
qed

lemma soap_answers_check:
  assumes "soap_answers w"
  shows "\<exists>ret. soap w tr (check_call lc_endpoint lc_user lc_password study_identifier ss_label) = Inr ret
           \<and> (ret_result ret \<noteq> py ''Success'' \<or> ret_raw_elements ret \<noteq> [])"
proof -
  let ?c = "check_call lc_endpoint lc_user lc_password study_identifier ss_label"
  from assms have "case soap w tr ?c of
        Inl e \<Rightarrow> False
      | Inr ret \<Rightarrow>
          (case ?c of
             IsStudySubject u h sub \<Rightarrow>
               ret_result ret \<noteq> py ''Success'' \<or> ret_raw_elements ret \<noteq> []
           | _ \<Rightarrow> True)"
    unfolding soap_answers_def by blast
  then show ?thesis
    by (cases "soap w tr ?c") (auto simp add: check_call_def)
qed

lemma import_answers_any:
  assumes "import_answers w"
  shows "\<exists>ret. post_data w tr c = Inr ret \<and> (success_indicator ret \<or> http_errors ret \<noteq> [])"
proof -
  from assms have "case post_data w tr c of
        Inl e \<Rightarrow> False
      | Inr ret \<Rightarrow> success_indicator ret \<or> http_errors ret \<noteq> []"
    unfolding import_answers_def by blast
  then show ?thesis
    by (cases "post_data w tr c") auto
qed

lemma gender_code_returns:
  "ss_gender \<noteq> CNA \<Longrightarrow> \<exists>gv. gender_code lib ss_gender = Inr gv"
  by (cases ss_gender) (simp_all add: gender_code_def eq_int_truth_def split: bool.splits)

lemma get_lc_ss_oid_returns:
  assumes "soap_answers w" and "ss_gender \<noteq> CNA"
  shows "\<exists>oid. fst (get_lc_ss_oid lib w lc_endpoint lc_user lc_password study_identifier
                 ss_label ss_gender rerun tr) = Inr oid"
proof -
  have r: "\<exists>oid. fst (get_lc_ss_oid lib w lc_endpoint lc_user lc_password study_identifier
                 ss_label ss_gender True tr) = Inr oid" for tr
  proof -
    from soap_answers_check [OF assms(1)] obtain ret where
      "soap w (tr @ [Log Info (L_trying ss_label)])
         (check_call lc_endpoint lc_user lc_password study_identifier ss_label) = Inr ret"
      "ret_result ret \<noteq> py ''Success'' \<or> ret_raw_elements ret \<noteq> []"
      by blast
    then show ?thesis
      unfolding get_lc_ss_oid_rerun
      by (cases "rev (ret_raw_elements ret)") auto
  qed
  show ?thesis
  proof (cases rerun)
    case True
    with r show ?thesis by simp
  next
    case False
    from soap_answers_check [OF assms(1)] obtain ret where s:
      "soap w (tr @ [Log Info (L_trying ss_label)])
         (check_call lc_endpoint lc_user lc_password study_identifier ss_label) = Inr ret"
      "ret_result ret \<noteq> py ''Success'' \<or> ret_raw_elements ret \<noteq> []"
      by blast
    show ?thesis
    proof (cases "ret_result ret = py ''Success''")
      case True
      with s False show ?thesis
        by (subst get_lc_ss_oid.simps)
           (cases "rev (ret_raw_elements ret)"; simp add: Let_def check_call_def)
    next
      case nosucc: False
      from gender_code_returns [OF assms(2)] obtain gv where g: "gender_code lib ss_gender = Inr gv"
        by blast
      let ?tr3 = "tr @ [Log Info (L_trying ss_label),
            Call (check_call lc_endpoint lc_user lc_password study_identifier ss_label),
            Log Info L_creating]"
      let ?c = "Create (lc_endpoint @ py ''study/v1/studySubjectWsdl.wsdl'') (lc_user, lc_password)
                  \<lparr>sub_label = ss_label, sub_enrollmentDate = today w ?tr3,
                   sub_gender = Some gv, sub_studyRef = study_identifier\<rparr>"
      from soap_answers_any [OF assms(1)] obtain ret' where c: "soap w ?tr3 ?c = Inr ret'"
        by blast
      show ?thesis
      proof (cases "ret_result ret' = py ''Success''")
        case True
        have "get_lc_ss_oid lib w lc_endpoint lc_user lc_password study_identifier
                ss_label ss_gender rerun tr =
              get_lc_ss_oid lib w lc_endpoint lc_user lc_password study_identifier
                ss_label ss_gender True (?tr3 @ [Call ?c, Log Info L_rerunning])"
          using s False nosucc g c True
          by (subst get_lc_ss_oid.simps) (simp add: Let_def check_call_def)
        with r show ?thesis
          by simp
      next
        case False
        with s \<open>\<not> rerun\<close> nosucc g c show ?thesis
          by (subst get_lc_ss_oid.simps) (simp add: Let_def check_call_def)
      qed
    qed
  qed
qed

subsection \<open>One row under a remote system that answers\<close>

lemma build_items_returns:
  assumes "g_identifier_colname g = Some idc" and "g_item_prefix g = Some ip"
    and "set names \<subseteq> fst ` set row"
  shows "\<exists>items. build_items lib g row names items0 = Inr items"
  using assms(3)
proof (induction names arbitrary: items0)
  case Nil
  then show ?case by simp
next
  case (Cons name names)
  then have "map_of row name \<noteq> None"
    by (simp add: map_of_eq_None_iff)
  then obtain v where "map_of row name = Some v"
    by blast
  with Cons assms(1,2) show ?case
    by (simp add: read_global_def row_item_def)
qed

lemma upload_row_returns:
  assumes "globals_bound g" and "soap_answers w" and "import_answers w"
    and "rows_ok g columns [row]"
  shows "\<exists>ret tr'. upload_row lib w g config columns row i tr = (Inr (row_label g row, ret), tr')
           \<and> (success_indicator ret \<or> http_errors ret \<noteq> [])
           \<and> uploads tr' = uploads tr @ [row_label g row] \<and> posts tr' = posts tr + 1"
proof -
  from assms(1) obtain so si eo fo ig idc gc ip where g:
    "g_study_oid g = Some so" "g_study_identifier g = Some si" "g_event_oid g = Some eo"
    "g_form_oid g = Some fo" "g_item_group_oid g = Some ig" "g_identifier_colname g = Some idc"
    "g_gender_colname g = Some gc" "g_item_prefix g = Some ip"
    unfolding globals_bound_def by auto
  from assms(4) g have r: "map fst row = columns" "idc \<in> set columns" "gc \<in> set columns"
    "map_of row gc \<noteq> Some CNA"
    by (simp_all add: rows_ok_def)
  from r(1,2) have "map_of row idc \<noteq> None"
    by (metis map_of_eq_None_iff set_map)
  then obtain l where l: "map_of row idc = Some l"
    by blast
  with g have rl: "row_label g row = l"
    by (simp add: row_label_def)
  from r(1,3) have "map_of row gc \<noteq> None"
    by (metis map_of_eq_None_iff set_map)
  then obtain gen where gen: "map_of row gc = Some gen"
    by blast
  with r(4) have na: "gen \<noteq> CNA"
    by auto
  let ?tr2 = "tr @ [Log Info (L_iteration i), Log Info (L_adding l)]"
  let ?r = "get_lc_ss_oid lib w (cfg_lc_endpoint config) (cfg_lc_user config)
              (cfg_lc_password config) si l gen False ?tr2"
  from get_lc_ss_oid_returns [OF assms(2) na] obtain oid where o: "fst ?r = Inr oid"
    by blast
  from get_lc_ss_oid_trace obtain ext where e: "snd ?r = ?tr2 @ ext" "uploads ext = []" "posts ext = 0"
    by blast
  from o e have ro: "?r = (Inr oid, ?tr2 @ ext)"
    by (metis prod.collapse)
  let ?tr3 = "?tr2 @ ext @ [Log Info (L_got_oid oid)]"
  have rs: "resolve_subject lib w g config row i tr = (Inr (l, oid), ?tr3)"
    using g l gen ro
    by (simp add: resolve_subject_def read_global_def row_item_def Let_def)
  let ?ev = "Schedule (cfg_lc_endpoint config @ py ''event/v1/eventWsdl.wsdl'')
              (cfg_lc_user config, cfg_lc_password config)
              \<lparr>ev_label = l, ev_studyRef = si, ev_eventDefinitionOID = eo,
               ev_startDate = py ''2000-01-01'', ev_location = py ''NL''\<rparr>"
  from soap_answers_any [OF assms(2)] obtain sret where sr: "soap w ?tr3 ?ev = Inr sret"
    by blast
  define tr4 where "tr4 = ?tr3 @ [Call ?ev, Log Info (L_schedule_code (ret_result sret))]
      @ (if ret_result sret = py ''Fail''
         then [Log Warning (L_schedule_fail (ret_error sret))] else [])"
  have se: "schedule_event w g config l ?tr3 = (Inr (), tr4)"
    "uploads tr4 = uploads ?tr3" "posts tr4 = posts ?tr3"
    using g sr
    by (simp_all add: tr4_def schedule_event_def read_global_def Let_def posts_def is_post_def)
  from r(1) have "set columns \<subseteq> fst ` set row"
    by auto
  from build_items_returns [OF g(6,8) this] obtain items where
    b: "build_items lib g row columns [] = Inr items"
    by blast
  let ?p = "PostData (cfg_lc_endpoint config @ py ''data/v1/dataWsdl.wsdl'')
              \<lparr>odm_user = cfg_lc_user config, odm_password = cfg_lc_password config,
               odm_study_oid = so, odm_subject_key = oid, odm_event_oid = eo,
               odm_form_oid = fo, odm_item_group_oid = ig, odm_items = items\<rparr>"
  from import_answers_any [OF assms(3)] obtain ret where
    p: "post_data w (tr4 @ [Log Info (L_starting_upload l)]) ?p = Inr ret"
    "success_indicator ret \<or> http_errors ret \<noteq> []"
    by blast
  let ?tr5 = "tr4 @ [Log Info (L_starting_upload l), Call ?p,
                     Log Info (L_upload_code (http_status_code ret))]"
  have su: "submit w g config l oid items tr4 = (Inr ret, ?tr5)"
    using g p by (simp add: submit_def read_global_def Let_def)
  have "upload_row lib w g config columns row i tr = (Inr (l, ret), ?tr5)"
    using rs se b su by (simp add: upload_row_def)
  moreover have "uploads ?tr5 = uploads tr @ [l]"
    using se e by simp
  moreover have "posts ?tr5 = posts tr + 1"
    using se e by (simp add: posts_def is_post_def)
  ultimately show ?thesis
    using p(2) rl by blast
qed

lemma process_row_returns:
  assumes "globals_bound g" and "soap_answers w" and "import_answers w"
    and "rows_ok g columns [row]"
  shows "\<exists>fs' tr'. process_row lib w g config columns row fs i tr = (Inr (fs @ fs'), tr')
           \<and> length fs' \<le> 1
           \<and> uploads tr' = uploads tr @ [row_label g row] \<and> posts tr' = posts tr + 1"
proof -
  from upload_row_returns [OF assms, of lib config i tr] obtain ret tr1 where
    u: "upload_row lib w g config columns row i tr = (Inr (row_label g row, ret), tr1)"
    and m: "success_indicator ret \<or> http_errors ret \<noteq> []"
    and t: "uploads tr1 = uploads tr @ [row_label g row]" "posts tr1 = posts tr + 1"
    by blast
  show ?thesis
  proof (cases "success_indicator ret")
    case True
    with u t have "process_row lib w g config columns row fs i tr =
        (Inr (fs @ []), tr1 @ [Log Info L_succeeded, Log Info (L_result (hd (http_results ret)))])
        \<and> uploads (tr1 @ [Log Info L_succeeded, Log Info (L_result (hd (http_results ret)))])
          = uploads tr @ [row_label g row]
        \<and> posts (tr1 @ [Log Info L_succeeded, Log Info (L_result (hd (http_results ret)))])
          = posts tr + 1"
      by (simp add: process_row_def interpret_response_def posts_def)
    then show ?thesis
      by (metis le_numeral_extra(3) list.size(3) zero_le_one)
  next
    case False
    with m obtain e0 es where e: "http_errors ret = e0 # es"
      by (cases "http_errors ret") auto
    with u t False have "process_row lib w g config columns row fs i tr =
        (Inr (fs @ [(row_label g row, e0)]),
         tr1 @ [Log Warning (L_upload_fail e0), Log Info (L_failed_subject (row_label g row, e0))])
        \<and> uploads (tr1 @ [Log Warning (L_upload_fail e0),
                            Log Info (L_failed_subject (row_label g row, e0))])
          = uploads tr @ [row_label g row]
        \<and> posts (tr1 @ [Log Warning (L_upload_fail e0),
                          Log Info (L_failed_subject (row_label g row, e0))])
          = posts tr + 1"
      by (simp add: process_row_def interpret_response_def posts_def)
    moreover have "length [(row_label g row, e0)] \<le> 1"
      by simp
    ultimately show ?thesis
      by blast
  qed
qed

lemma rows_ok_Cons:
  "rows_ok g columns (row # rows) \<Longrightarrow> rows_ok g columns [row] \<and> rows_ok g columns rows"
  by (auto simp add: rows_ok_def split: option.splits)

lemma run_rows_returns:
  assumes "globals_bound g" and "soap_answers w" and "import_answers w"
    and "rows_ok g columns rows"
  shows "\<exists>fs' tr'. run_rows lib w g config columns rows fs i tr = (Inr (fs @ fs'), tr')
           \<and> length fs' \<le> length rows
           \<and> uploads tr' = uploads tr @ map (row_label g) rows
           \<and> posts tr' = posts tr + length rows"
  using assms(4)
proof (induction rows arbitrary: fs i tr)
  case Nil
  show ?case by simp
next
  case (Cons row rows)
  from rows_ok_Cons [OF Cons.prems] have ok: "rows_ok g columns [row]" "rows_ok g columns rows"
    by simp_all
  from process_row_returns [OF assms(1,2,3) ok(1), of lib config fs i tr] obtain fs1 tr1 where
    p: "process_row lib w g config columns row fs i tr = (Inr (fs @ fs1), tr1)"
      "length fs1 \<le> 1" "uploads tr1 = uploads tr @ [row_label g row]" "posts tr1 = posts tr + 1"
    by blast
  from Cons.IH [OF ok(2), of "fs @ fs1" "i + 1" tr1] obtain fs2 tr2 where
    r: "run_rows lib w g config columns rows (fs @ fs1) (i + 1) tr1 = (Inr ((fs @ fs1) @ fs2), tr2)"
      "length fs2 \<le> length rows" "uploads tr2 = uploads tr1 @ map (row_label g) rows"
      "posts tr2 = posts tr1 + length rows"
    by blast
  from p r have "run_rows lib w g config columns (row # rows) fs i tr = (Inr (fs @ (fs1 @ fs2)), tr2)
      \<and> length (fs1 @ fs2) \<le> length (row # rows)
      \<and> uploads tr2 = uploads tr @ map (row_label g) (row # rows)
      \<and> posts tr2 = posts tr + length (row # rows)"
    by simp
  then show ?case
    by blast
qed

subsection \<open>C8: failures of single records do not end the batch\<close>

text \<open>
  C8, as the code has it.  When the remote system answers every call (whatever the
  answers are: subjects unknown, creations refused, scheduling failed, imports answered by
  an error), the data frame has rows, the globals are bound and the rows can be read, the
  batch runs to its end: an import is started for every row, in order, and the summary
  gives the number of rows as expected and the length of the failure log as failed.  What
  the failure log gets from a row is decided by the answer to its import alone; a failed
  creation by itself adds nothing.  So for three rows whose imports are answered by
  success, error, success (the second one, say, after a creation that failed) the failure
  log is the one entry of the second row.
\<close>

theorem batch_runs_to_end:
  "(cfg_perform_query config \<and> globals_bound g \<and> soap_answers w \<and> import_answers w
     \<and> get_sparql_dataframe (lib :: 'f pylib) w (the (g_query g)) True
          (tr @ [Log Info (L_retrieving (cfg_sparql_endpoint config))]) = (Inr df, tr2)
     \<and> 0 < df_len df
     \<and> rows_ok g (df_columns (rename df (cfg_alternative_item_oids config)))
          (iterrows (rename df (cfg_alternative_item_oids config))) \<longrightarrow>
     (\<exists>(fs :: ('f cell \<times> pystr) list) tr5.
        fst (run_rows lib w g config (df_columns (rename df (cfg_alternative_item_oids config)))
               (iterrows (rename df (cfg_alternative_item_oids config))) [] 1
               (tr2 @ [Log Info (L_received (df_len df)),
                       Log Info (L_columns (df_columns (rename df (cfg_alternative_item_oids config))))]))
          = Inr fs
        \<and> upload_to_lc lib w g config tr =
          (Inr (), tr5 @ [Log Info (L_total (df_len df)), Log Info (L_num_failed (length fs))])
        \<and> length fs \<le> df_len df
        \<and> uploads tr5 = uploads tr2 @ map (row_label g) (iterrows (rename df (cfg_alternative_item_oids config)))
        \<and> posts tr5 = posts tr2 + df_len df))
   \<and> (upload_row lib w g config columns r1 i tr = (Inr (l1, ret1), t1) \<and> success_indicator ret1
       \<and> upload_row lib w g config columns r2 (i + 1)
            (t1 @ [Log Info L_succeeded, Log Info (L_result (hd (http_results ret1)))])
          = (Inr (l2, ret2), t2)
       \<and> \<not> success_indicator ret2 \<and> http_errors ret2 \<noteq> []
       \<and> upload_row lib w g config columns r3 (i + 1 + 1)
            (t2 @ [Log Warning (L_upload_fail (hd (http_errors ret2))),
                   Log Info (L_failed_subject (l2, hd (http_errors ret2)))])
          = (Inr (l3, ret3), t3)
       \<and> success_indicator ret3 \<longrightarrow>
       run_rows lib w g config columns [r1, r2, r3] [] i tr =
         (Inr [(l2, hd (http_errors ret2))],
          t3 @ [Log Info L_succeeded, Log Info (L_result (hd (http_results ret3)))]))"
proof -
  let ?df = "rename df (cfg_alternative_item_oids config)"
  have A: "\<exists>(fs :: ('f cell \<times> pystr) list) tr5.
        fst (run_rows lib w g config (df_columns ?df) (iterrows ?df) [] 1
               (tr2 @ [Log Info (L_received (df_len df)), Log Info (L_columns (df_columns ?df))]))
          = Inr fs
        \<and> upload_to_lc lib w g config tr =
          (Inr (), tr5 @ [Log Info (L_total (df_len df)), Log Info (L_num_failed (length fs))])
        \<and> length fs \<le> df_len df
        \<and> uploads tr5 = uploads tr2 @ map (row_label g) (iterrows ?df)
        \<and> posts tr5 = posts tr2 + df_len df"
    if a: "cfg_perform_query config" "globals_bound g" "soap_answers w" "import_answers w"
      "get_sparql_dataframe lib w (the (g_query g)) True
          (tr @ [Log Info (L_retrieving (cfg_sparql_endpoint config))]) = (Inr df, tr2)"
      "0 < df_len df" "rows_ok g (df_columns ?df) (iterrows ?df)"
  proof -
    from a(2) obtain qry where q: "g_query g = Some qry"
      unfolding globals_bound_def by auto
    let ?tr4 = "tr2 @ [Log Info (L_received (df_len df)), Log Info (L_columns (df_columns ?df))]"
    from run_rows_returns [OF a(2,3,4,7), of lib config "[]" 1 ?tr4] obtain fs tr5 where
      r: "run_rows lib w g config (df_columns ?df) (iterrows ?df) [] 1 ?tr4 = (Inr fs, tr5)"
        "length fs \<le> length (iterrows ?df)"
        "uploads tr5 = uploads ?tr4 @ map (row_label g) (iterrows ?df)"
        "posts tr5 = posts ?tr4 + length (iterrows ?df)"
      by auto
    have n: "length (iterrows ?df) = df_len df"
      by (simp add: iterrows_def)
    define tr6 where "tr6 = (if fs \<noteq> [] then tr5 @ [Log Warning (L_failed_list fs)] else tr5)"
    have "upload_to_lc lib w g config tr =
          (Inr (), tr6 @ [Log Info (L_total (df_len df)), Log Info (L_num_failed (length fs))])"
      using a(1,5,6) q r(1)
      by (simp add: tr6_def upload_to_lc_def read_global_def Let_def)
    moreover have "uploads tr6 = uploads tr2 @ map (row_label g) (iterrows ?df)"
      using r(3) by (simp add: tr6_def)
    moreover have "posts tr6 = posts tr2 + df_len df"
      using r(4) n by (simp add: tr6_def posts_def)
    moreover have "length fs \<le> df_len df"
      using r(2) n by simp
    moreover have "fst (run_rows lib w g config (df_columns ?df) (iterrows ?df) [] 1 ?tr4) = Inr fs"
      using r(1) by simp
    ultimately show ?thesis
      by blast
  qed
  have B: "run_rows lib w g config columns [r1, r2, r3] [] i tr =
         (Inr [(l2, hd (http_errors ret2))],
          t3 @ [Log Info L_succeeded, Log Info (L_result (hd (http_results ret3)))])"
    if "upload_row lib w g config columns r1 i tr = (Inr (l1, ret1), t1)" "success_indicator ret1"
      "upload_row lib w g config columns r2 (i + 1)
            (t1 @ [Log Info L_succeeded, Log Info (L_result (hd (http_results ret1)))])
          = (Inr (l2, ret2), t2)"
      "\<not> success_indicator ret2" "http_errors ret2 \<noteq> []"
      "upload_row lib w g config columns r3 (i + 1 + 1)
            (t2 @ [Log Warning (L_upload_fail (hd (http_errors ret2))),
                   Log Info (L_failed_subject (l2, hd (http_errors ret2)))])
          = (Inr (l3, ret3), t3)"
      "success_indicator ret3"
    using that
    by (cases "http_errors ret2") (simp_all add: process_row_def interpret_response_def)
  from A B show ?thesis
    by blast
qed

lemma soap_answers_demo: "soap_answers (demo_world js)"
  unfolding soap_answers_def
  by (auto simp add: demo_world_def demo_soap_def soap_ok_def soap_fail_def py_def
        split: call.splits sum.splits)

lemma import_answers_demo: "import_answers (demo_world js)"
  unfolding import_answers_def
  by (auto simp add: demo_world_def demo_post_data_def http_ok_def http_fail_def
        success_indicator_def py_def split: call.splits sum.splits)

theorem batch_runs_to_end_witness:
  "cfg_perform_query demo_config \<and> globals_bound demo_globals
   \<and> soap_answers (demo_world demo_json) \<and> import_answers (demo_world demo_json)
   \<and> get_sparql_dataframe demo_lib (demo_world demo_json) (the (g_query demo_globals)) True
        ([] @ [Log Info (L_retrieving (cfg_sparql_endpoint demo_config))])
      = (Inr demo_df, demo_query_trace)
   \<and> 0 < df_len demo_df
   \<and> rows_ok demo_globals (df_columns (rename demo_df (cfg_alternative_item_oids demo_config)))
        (iterrows (rename demo_df (cfg_alternative_item_oids demo_config)))
   \<and> (\<exists>(fs :: (int cell \<times> pystr) list) tr5.
        upload_to_lc demo_lib (demo_world demo_json) demo_globals demo_config [] =
          (Inr (), tr5 @ [Log Info (L_total (df_len demo_df)), Log Info (L_num_failed (length fs))])
        \<and> length fs \<le> df_len demo_df
        \<and> uploads tr5 = [CStr (py ''P1''), CStr (py ''P2''), CStr (py ''P3'')]
        \<and> posts tr5 = 3)
   \<and> drop 52 (snd (upload_to_lc demo_lib (demo_world demo_json) demo_globals demo_config [])) =
        [Log Warning (L_failed_list [(CStr (py ''P2''), py ''no subject'')]),
         Log Info (L_total 3), Log Info (L_num_failed 1)]
   \<and> fst (run_rows demo_lib (demo_world demo_json) demo_globals demo_config town_columns
          [demo_r1, demo_r2, demo_r3] [] 1 []) = Inr [(CStr (py ''P2''), py ''no subject'')]"
proof -
  let ?w = "demo_world demo_json"
  have h1: "cfg_perform_query demo_config" "globals_bound demo_globals"
    by (simp_all add: demo_config_def demo_globals_def globals_bound_def)
  have h2: "get_sparql_dataframe demo_lib ?w (the (g_query demo_globals)) True
        ([] @ [Log Info (L_retrieving (cfg_sparql_endpoint demo_config))])
      = (Inr demo_df, demo_query_trace)"
    by code_simp
  have h3: "0 < df_len demo_df"
    by (simp add: demo_df_def)
  have h4: "rows_ok demo_globals (df_columns (rename demo_df (cfg_alternative_item_oids demo_config)))
        (iterrows (rename demo_df (cfg_alternative_item_oids demo_config)))"
    by code_simp
  have e: "uploads demo_query_trace @ map (row_label demo_globals)
             (iterrows (rename demo_df (cfg_alternative_item_oids demo_config)))
           = [CStr (py ''P1''), CStr (py ''P2''), CStr (py ''P3'')]"
      "posts demo_query_trace + df_len demo_df = 3"
    by code_simp+
  note t = batch_runs_to_end [where lib = demo_lib and w = ?w and g = demo_globals
      and config = demo_config and tr = "[]" and df = demo_df and ?tr2.0 = demo_query_trace
      and columns = town_columns and ?r1.0 = demo_r1 and ?r2.0 = demo_r2 and ?r3.0 = demo_r3
      and i = 1 and ?l1.0 = "CStr (py ''P1'')" and ?l2.0 = "CStr (py ''P2'')" and ?l3.0 = "CStr (py ''P3'')"
      and ?ret1.0 = http_ok and ?ret2.0 = "http_fail (py ''no subject'')" and ?ret3.0 = http_ok]
  from t h1 h2 h3 h4 soap_answers_demo import_answers_demo
  have A: "\<exists>(fs :: (int cell \<times> pystr) list) tr5.
        upload_to_lc demo_lib ?w demo_globals demo_config [] =
          (Inr (), tr5 @ [Log Info (L_total (df_len demo_df)), Log Info (L_num_failed (length fs))])
        \<and> length fs \<le> df_len demo_df
        \<and> uploads tr5 = uploads demo_query_trace @ map (row_label demo_globals)
             (iterrows (rename demo_df (cfg_alternative_item_oids demo_config)))
        \<and> posts tr5 = posts demo_query_trace + df_len demo_df"
    by blast
  have d: "drop 52 (snd (upload_to_lc demo_lib ?w demo_globals demo_config [])) =
        [Log Warning (L_failed_list [(CStr (py ''P2''), py ''no subject'')]),
         Log Info (L_total 3), Log Info (L_num_failed 1)]"
    by code_simp
  let ?u1 = "upload_row demo_lib ?w demo_globals demo_config town_columns demo_r1 1 []"
  let ?t1 = "snd ?u1 @ [Log Info L_succeeded, Log Info (L_result (hd (http_results http_ok)))]"
  let ?u2 = "upload_row demo_lib ?w demo_globals demo_config town_columns demo_r2 (1 + 1) ?t1"
  let ?t2 = "snd ?u2 @ [Log Warning (L_upload_fail (hd (http_errors (http_fail (py ''no subject''))))),
                   Log Info (L_failed_subject (CStr (py ''P2''), hd (http_errors (http_fail (py ''no subject'')))))]"
  let ?u3 = "upload_row demo_lib ?w demo_globals demo_config town_columns demo_r3 (1 + 1 + 1) ?t2"
  have "fst ?u1 = Inr (CStr (py ''P1''), http_ok)"
    by code_simp
  then have u1: "?u1 = (Inr (CStr (py ''P1''), http_ok), snd ?u1)"
    by (metis prod.collapse)
  have "fst ?u2 = Inr (CStr (py ''P2''), http_fail (py ''no subject''))"
    by code_simp
  then have u2: "?u2 = (Inr (CStr (py ''P2''), http_fail (py ''no subject'')), snd ?u2)"
    by (metis prod.collapse)
  have "fst ?u3 = Inr (CStr (py ''P3''), http_ok)"
    by code_simp
  then have u3: "?u3 = (Inr (CStr (py ''P3''), http_ok), snd ?u3)"
    by (metis prod.collapse)
  have s: "success_indicator http_ok" "\<not> success_indicator (http_fail (py ''no subject''))"
      "http_errors (http_fail (py ''no subject'')) \<noteq> []"
      "hd (http_errors (http_fail (py ''no subject''))) = py ''no subject''"
    by (simp_all add: success_indicator_def http_ok_def http_fail_def py_def)
  from t [where ?t1.0 = "snd ?u1" and ?t2.0 = "snd ?u2" and ?t3.0 = "snd ?u3"] u1 u2 u3 s(1,2,3)
  have "run_rows demo_lib ?w demo_globals demo_config town_columns [demo_r1, demo_r2, demo_r3] [] 1 [] =
         (Inr [(CStr (py ''P2''), hd (http_errors (http_fail (py ''no subject''))))],
          snd ?u3 @ [Log Info L_succeeded, Log Info (L_result (hd (http_results http_ok)))])"
    by blast
  then have B: "fst (run_rows demo_lib ?w demo_globals demo_config town_columns
          [demo_r1, demo_r2, demo_r3] [] 1 []) = Inr [(CStr (py ''P2''), py ''no subject'')]"
    using s(4) by simp
  from A have A': "\<exists>(fs :: (int cell \<times> pystr) list) tr5.
        upload_to_lc demo_lib ?w demo_globals demo_config [] =
          (Inr (), tr5 @ [Log Info (L_total (df_len demo_df)), Log Info (L_num_failed (length fs))])
        \<and> length fs \<le> df_len demo_df
        \<and> uploads tr5 = [CStr (py ''P1''), CStr (py ''P2''), CStr (py ''P3'')]
        \<and> posts tr5 = 3"
    unfolding e .
  from h1 soap_answers_demo import_answers_demo h2 h3 h4 A' d B show ?thesis
    by blast
qed

text \<open>
  C8 as it is worded fails: a failed creation adds nothing to the failure log.  Here the
  creation of the second of three subjects is refused and every import is answered by a
  success: the run ends with an empty failure log and a summary of 3 expected, 0 failed.
\<close>

theorem create_failure_counterexample:
  "fst (upload_to_lc demo_lib (world_answering http_ok demo_json) demo_globals demo_config []) = Inr ()
   \<and> List.member (snd (upload_to_lc demo_lib (world_answering http_ok demo_json) demo_globals
                        demo_config []))
        (Log Warning (L_could_not_create (py ''refused'')))
   \<and> drop 52 (snd (upload_to_lc demo_lib (world_answering http_ok demo_json) demo_globals
                     demo_config []))
      = [Log Info (L_total 3), Log Info (L_num_failed 0)]"
  by code_simp

subsection \<open>C4: a label that does not exist yet\<close>

lemma gender_code_cases:
  "gender_code lib (CInt 1) = Inr (CStr (py ''m''))"
  "gender_code lib (CInt 2) = Inr (CStr (py ''f''))"
  "n \<noteq> 1 \<Longrightarrow> n \<noteq> 2 \<Longrightarrow> gender_code lib (CInt n) = Inr (CInt n)"
  "gender_code lib (CStr s) = Inr (CStr s)"
  "gender_code lib CNone = Inr CNone"
  "gender_code lib CNaN = Inr CNaN"
  "gender_code lib CNA = Inl TypeError"
  by (simp_all add: gender_code_def eq_int_truth_def)

lemma get_lc_ss_oid_new_subject:
  assumes "soap w (tr @ [Log Info (L_trying ss_label)])
             (check_call lc_endpoint lc_user lc_password study_identifier ss_label) = Inr ret"
    and "ret_result ret \<noteq> py ''Success''"
    and "gender_code lib ss_gender = Inr gv"
    and "tr3 = tr @ [Log Info (L_trying ss_label),
                     Call (check_call lc_endpoint lc_user lc_password study_identifier ss_label),
                     Log Info L_creating]"
    and "c = Create (lc_endpoint @ py ''study/v1/studySubjectWsdl.wsdl'') (lc_user, lc_password)
               \<lparr>sub_label = ss_label, sub_enrollmentDate = today w tr3,
                sub_gender = Some gv, sub_studyRef = study_identifier\<rparr>"
    and "soap w tr3 c = Inr ret'"
  shows "get_lc_ss_oid lib w lc_endpoint lc_user lc_password study_identifier ss_label ss_gender False tr =
           (if ret_result ret' = py ''Success''
            then get_lc_ss_oid lib w lc_endpoint lc_user lc_password study_identifier ss_label
                   ss_gender True (tr3 @ [Call c, Log Info L_rerunning])
            else (Inr [], tr3 @ [Call c, Log Warning (L_could_not_create (ret_error ret'))]))"
  using assms
  by (subst get_lc_ss_oid.simps) (simp add: Let_def check_call_def)

text \<open>
  C4.  The claim holds for every gender that can be compared with 1 and 2 (the two lemmas
  above and \<open>get_lc_ss_oid_rerun\<close>), but not for the missing marker \<open>pd.NA\<close>, which an
  integer gender column holds for a row without a gender: for a subject that does not
  exist yet the conditional expression of line 92 raises \<open>TypeError\<close>, no creation is
  requested, and the upload ends there.
\<close>

theorem na_gender_raises:
  "get_lc_ss_oid demo_lib (demo_world demo_json_na) (py ''http://lc/'') (py ''u'') (py ''p'')
     (py ''ST'') (CStr (py ''P4'')) CNA False []
   = (Inl TypeError,
      [Log Info (L_trying (CStr (py ''P4''))),
       Call (check_call (py ''http://lc/'') (py ''u'') (py ''p'') (py ''ST'') (CStr (py ''P4''))),
       Log Info L_creating])
   \<and> fst (upload_to_lc demo_lib (demo_world demo_json_na) demo_globals demo_config [])
      = Inl TypeError"
  by code_simp

end
